theory Spec2Isabelle
  imports Complex_Main "HOL-Library.Char_ord" "HOL-Library.List_Lexorder"
begin

section \<open>PatchTrap: a shallow embedding of \<^verbatim>\<open>PatchTrap.py\<close>\<close>

text \<open>
  The Python process is modelled by an explicit state. Objects live in a heap indexed by
  references; an object carries what \<^verbatim>\<open>getattr\<close> finds for each attribute name and
  the reflective observations that \<^verbatim>\<open>_fingerprint_callable\<close> and
  \<^verbatim>\<open>_resolve_dotted\<close> make of it. Every read that runs code of the object can raise,
  and what it raises is a value of the model, so that each \<^verbatim>\<open>except\<close> clause of the
  source catches exactly the exceptions of its class and lets the others pass.
  Python \<^verbatim>\<open>str\<close> and \<^verbatim>\<open>bytes\<close> are both \<open>string\<close>: the model covers ASCII text,
  for which \<^verbatim>\<open>.encode()\<close> is the identity.
  Library functions that are not code of the repository are parameters:
  \<^item> \<open>H\<close> is \<^verbatim>\<open>hashlib.sha256(b).hexdigest()\<close>;
  \<^item> \<open>runpy\<close> is \<^verbatim>\<open>runpy.run_path(path, run_name="__main__")\<close>: what the guarded
    program does to the process, and whether it returns or what it raises.

  What the model assumes of the Python runtime:
  \<^item> a successful \<^verbatim>\<open>setattr\<close> stores the value, and the next \<^verbatim>\<open>getattr\<close> of that
    attribute of that object finds it; it changes no other attribute, and it does not
    change the reflective observations of the object (the last segment of a target is
    not \<^verbatim>\<open>__module__\<close>, \<^verbatim>\<open>__qualname__\<close>, \<^verbatim>\<open>__name__\<close>, \<^verbatim>\<open>__code__\<close> or
    \<^verbatim>\<open>__class__\<close>, and \<^verbatim>\<open>repr\<close> does not depend on the attribute);
  \<^item> importing a module is a lookup and changes nothing;
  \<^item> \<^verbatim>\<open>os.environ\<close>, \<^verbatim>\<open>sys.meta_path\<close>, \<^verbatim>\<open>sys.argv\<close> and the clock are
    components of the process state of their own, apart from the attributes of objects;
  \<^item> the guarded program changes the process state at will, but not the fields of the
    \<^verbatim>\<open>PatchTrap\<close> instance;
  \<^item> a finite floating-point number is the rational that it denotes;
  \<^item> printing, and opening and writing the report file, do not fail.
\<close>

subsection \<open>Exceptions\<close>

text \<open>
  An exception is \<^verbatim>\<open>SystemExit\<close> with its \<^verbatim>\<open>code\<close>, or any other exception, given
  by its place in the class hierarchy (\<^verbatim>\<open>AttributeError\<close> or a subclass, another
  \<^verbatim>\<open>Exception\<close>, or a \<^verbatim>\<open>BaseException\<close> that is neither \<^verbatim>\<open>Exception\<close> nor
  \<^verbatim>\<open>SystemExit\<close>, such as \<^verbatim>\<open>KeyboardInterrupt\<close>) and by what \<^verbatim>\<open>repr(e)\<close> does:
  it returns a text or raises in turn. The code of a \<^verbatim>\<open>SystemExit\<close> is \<^verbatim>\<open>None\<close>, an
  integer, or any other object, which is given by what \<^verbatim>\<open>bool\<close> and \<^verbatim>\<open>int\<close> make
  of it.
\<close>

datatype exn_class = Cls_AttributeError | Cls_Exception | Cls_BaseException

datatype exit_code = Code_none | Code_int int | Code_object "pyexn + bool" "pyexn + int"
  and pyexn = SystemExit exit_code | Raised exn_class "pyexn + string"

text \<open>\<^verbatim>\<open>isinstance(e, AttributeError)\<close>\<close>

fun is_attribute_error :: "pyexn \<Rightarrow> bool" where
  "is_attribute_error (SystemExit c) = False"
| "is_attribute_error (Raised cls r) = (cls = Cls_AttributeError)"

text \<open>
  What \<^verbatim>\<open>except Exception as e\<close> followed by \<^verbatim>\<open>repr(e)\<close> obtains from a raised
  exception: the text, when the clause catches the exception and \<^verbatim>\<open>repr\<close> returns;
  otherwise the exception that goes on, which is the raised one when the clause does not
  catch it, and the one raised by \<^verbatim>\<open>repr\<close> when it does.
\<close>

fun except_repr :: "pyexn \<Rightarrow> pyexn + string" where
  "except_repr (SystemExit c) = Inl (SystemExit c)"
| "except_repr (Raised cls r) = (if cls = Cls_BaseException then Inl (Raised cls r) else r)"

text \<open>
  \<^verbatim>\<open>repr\<close> of a \<^verbatim>\<open>str\<close>: in single quotes, or in double quotes when the text has
  a single and no double quote; the backslash, the chosen quote, tab, newline and
  carriage return are escaped with a backslash, other characters outside the printable
  ASCII range are written \<^verbatim>\<open>\xhh\<close>.
\<close>

definition hex_digit :: "nat \<Rightarrow> char" where
  "hex_digit n = ''0123456789abcdef'' ! (n mod 16)"

definition py_escape :: "char \<Rightarrow> char \<Rightarrow> string" where
  "py_escape q c =
     (if c = q \<or> c = CHR 0x5C then [CHR 0x5C, c]
      else if c = CHR 0x09 then [CHR 0x5C, CHR ''t'']
      else if c = CHR 0x0A then [CHR 0x5C, CHR ''n'']
      else if c = CHR 0x0D then [CHR 0x5C, CHR ''r'']
      else if (of_char c :: nat) < 32 \<or> 127 \<le> (of_char c :: nat)
        then [CHR 0x5C, CHR ''x'', hex_digit (of_char c div 16), hex_digit (of_char c mod 16)]
      else [c])"

definition py_repr :: "string \<Rightarrow> string" where
  "py_repr s =
     (let q = (if CHR 0x27 \<in> set s \<and> CHR 0x22 \<notin> set s then CHR 0x22 else CHR 0x27)
      in q # concat (map (py_escape q) s) @ [q])"

text \<open>The exceptions that the source and the dictionary lookup construct.\<close>

definition ValueError :: "string \<Rightarrow> pyexn" where
  "ValueError msg = Raised Cls_Exception (Inr (''ValueError('' @ py_repr msg @ '')''))"

definition KeyError :: "string \<Rightarrow> pyexn" where
  "KeyError k = Raised Cls_Exception (Inr (''KeyError('' @ py_repr k @ '')''))"

subsection \<open>Objects, heap and process state\<close>

type_synonym ref = nat

record code_obj =
  co_code :: string
  co_consts :: string
  co_names :: string
  co_varnames :: string
  co_filename :: string
  co_firstlineno :: string

text \<open>
  The fields \<open>co_consts\<close> to \<open>co_firstlineno\<close> hold the \<^verbatim>\<open>repr\<close> text of the
  corresponding attribute of the code object, which is all the source reads of them.
  In \<open>pyobj\<close>, a read that can raise is a sum whose \<open>Inl\<close> is the exception raised:
  \<^item> \<open>attrs n\<close> is \<^verbatim>\<open>getattr(obj, n)\<close> for the attribute names of dotted targets;
  \<^item> \<open>setattr_raises n\<close> is the exception with which the object refuses the rebinding of
    its attribute \<open>n\<close>;
  \<^item> \<open>type_name\<close> is \<^verbatim>\<open>type(obj).__name__\<close> (and \<^verbatim>\<open>obj.__class__.__name__\<close>);
  \<^item> \<open>dunder_code\<close> is \<^verbatim>\<open>obj.__code__\<close>; \<open>dunder_module\<close>, \<open>dunder_qualname\<close> and
    \<open>dunder_name\<close> are \<^verbatim>\<open>obj.__module__\<close>, \<^verbatim>\<open>obj.__qualname__\<close> and
    \<^verbatim>\<open>obj.__name__\<close> as formatted text (a missing attribute raises
    \<^verbatim>\<open>AttributeError\<close>);
  \<^item> \<open>class_module\<close>, \<open>class_qualname\<close> are \<^verbatim>\<open>obj.__class__.__module__\<close> and
    \<^verbatim>\<open>obj.__class__.__qualname__\<close>;
  \<^item> \<open>repr\<close> is \<^verbatim>\<open>repr(obj)\<close>.
\<close>

record pyobj =
  attrs :: "string \<Rightarrow> pyexn + ref"
  setattr_raises :: "string \<Rightarrow> pyexn option"
  type_name :: "pyexn + string"
  isfunction :: bool
  ismethod :: bool
  isbuiltin :: bool
  is_callable :: bool
  dunder_code :: "pyexn + code_obj"
  dunder_module :: "pyexn + string"
  dunder_qualname :: "pyexn + string"
  dunder_name :: "pyexn + string"
  class_module :: string
  class_qualname :: string
  repr :: "pyexn + string"

text \<open>
  A floating-point number: the interval of the guard can be infinite.
\<close>

datatype pyfloat = Finite rat | Pos_inf | Neg_inf | Nan

text \<open>\<^verbatim>\<open>x > 0\<close>\<close>

fun positive :: "pyfloat \<Rightarrow> bool" where
  "positive (Finite r) = (0 < r)"
| "positive Pos_inf = True"
| "positive Neg_inf = False"
| "positive Nan = False"

text \<open>\<^verbatim>\<open>max(0.0, x)\<close>: the first argument unless the second is greater.\<close>

definition max_zero :: "pyfloat \<Rightarrow> pyfloat" where
  "max_zero x = (if positive x then x else Finite 0)"

text \<open>
  The process-wide state: \<open>importer\<close> is \<^verbatim>\<open>importlib.import_module\<close>, \<open>meta_path\<close>
  lists \<^verbatim>\<open>type(x).__name__\<close> for the entries of \<^verbatim>\<open>sys.meta_path\<close>, \<open>environ\<close> is
  \<^verbatim>\<open>os.environ\<close> as an association list read through \<open>map_of\<close>, \<open>clock\<close> is what
  \<^verbatim>\<open>time.time()\<close> returns. \<open>sleep_raises d\<close> is the exception with which
  \<^verbatim>\<open>time.sleep\<close> refuses the finite duration \<open>d\<close> (on CPython \<^verbatim>\<open>OverflowError\<close> or
  \<^verbatim>\<open>OSError\<close> for durations of about 9.2e9 seconds and more), and \<open>sleep_overflow\<close> is
  the one with which it refuses a duration that is not finite.
\<close>

record world =
  importer :: "string \<Rightarrow> pyexn + ref"
  heap :: "ref \<Rightarrow> pyobj"
  meta_path :: "string list"
  environ :: "(string \<times> string) list"
  argv :: "string list"
  clock :: rat
  sleep_raises :: "rat \<Rightarrow> pyexn option"
  sleep_overflow :: pyexn

subsection \<open>Fingerprints\<close>

record fingerprint =
  fp_type :: string
  fp_hash :: string
  fp_where :: string

definition sha256_bytes :: "(string \<Rightarrow> string) \<Rightarrow> string \<Rightarrow> string" where
  "sha256_bytes H b = H b"

fun join_bytes :: "string \<Rightarrow> string list \<Rightarrow> string" where
  "join_bytes sep [] = []"
| "join_bytes sep [x] = x"
| "join_bytes sep (x # y # ys) = x @ sep @ join_bytes sep (y # ys)"

text \<open>
  \<^verbatim>\<open>getattr(obj, name, default)\<close> and \<^verbatim>\<open>hasattr(obj, name)\<close>, applied to the result
  of the read: only an \<^verbatim>\<open>AttributeError\<close> is turned into the default or into
  \<^verbatim>\<open>False\<close>, any other exception goes on.
\<close>

definition getattr_default :: "pyexn + 'a \<Rightarrow> 'a \<Rightarrow> pyexn + 'a" where
  "getattr_default r d =
     (case r of
        Inr v \<Rightarrow> Inr v
      | Inl e \<Rightarrow> (if is_attribute_error e then Inr d else Inl e))"

definition hasattr :: "pyexn + 'a \<Rightarrow> pyexn + bool" where
  "hasattr r =
     (case r of
        Inr v \<Rightarrow> Inr True
      | Inl e \<Rightarrow> (if is_attribute_error e then Inr False else Inl e))"

text \<open>
  \<^verbatim>\<open>getattr(obj, '__qualname__', getattr(obj, '__name__', ''))\<close>: the default is
  evaluated first.
\<close>

definition qualname_or_name :: "pyobj \<Rightarrow> pyexn + string" where
  "qualname_or_name obj =
     (case getattr_default (dunder_name obj) [] of
        Inl e \<Rightarrow> Inl e
      | Inr n \<Rightarrow> getattr_default (dunder_qualname obj) n)"

text \<open>
  The body of the \<^verbatim>\<open>try\<close> of \<^verbatim>\<open>_fingerprint_callable\<close>, up to the call of
  \<^verbatim>\<open>_sha256_bytes\<close>: the byte string hashed by the branch taken, together with the
  \<^verbatim>\<open>where\<close> label of the branch, or the exception raised in the branch.
\<close>

definition fingerprint_try :: "pyobj \<Rightarrow> pyexn + (string \<times> string)" where
  "fingerprint_try obj =
     (if isfunction obj \<or> ismethod obj then
        (case dunder_code obj of
           Inl e \<Rightarrow> Inl e
         | Inr code \<Rightarrow>
             (case dunder_module obj of
                Inl e \<Rightarrow> Inl e
              | Inr m \<Rightarrow>
                  (case qualname_or_name obj of
                     Inl e \<Rightarrow> Inl e
                   | Inr q \<Rightarrow>
                       Inr (join_bytes ''||''
                              [co_code code, co_consts code, co_names code,
                               co_varnames code, co_filename code, co_firstlineno code],
                            m @ ''.'' @ q))))
      else if isbuiltin obj then
        (case getattr_default (dunder_module obj) [] of
           Inl e \<Rightarrow> Inl e
         | Inr m \<Rightarrow>
             (case qualname_or_name obj of
                Inl e \<Rightarrow> Inl e
              | Inr q \<Rightarrow>
                  (case repr obj of
                     Inl e \<Rightarrow> Inl e
                   | Inr r \<Rightarrow>
                       (let tag = m @ '':'' @ q @ '':'' @ take 80 r in Inr (tag, tag)))))
      else if is_callable obj then
        (case repr obj of
           Inl e \<Rightarrow> Inl e
         | Inr r \<Rightarrow>
             (let tag = class_module obj @ ''.'' @ class_qualname obj @ '':'' @ take 80 r
              in Inr (tag, tag)))
      else
        (case repr obj of
           Inl e \<Rightarrow> Inl e
         | Inr r \<Rightarrow> (let tag = ''not-callable:'' @ take 80 r in Inr (tag, tag))))"

text \<open>
  \<^verbatim>\<open>_fingerprint_callable\<close>. The read of \<^verbatim>\<open>type(obj).__name__\<close> comes before the
  \<^verbatim>\<open>try\<close>, so what it raises leaves the function. What the body of the \<^verbatim>\<open>try\<close>
  raises is caught when it is an \<^verbatim>\<open>Exception\<close>, and gives the error fingerprint unless
  \<^verbatim>\<open>repr(e)\<close> raises; any other exception leaves the function.
\<close>

definition fingerprint_callable :: "(string \<Rightarrow> string) \<Rightarrow> pyobj \<Rightarrow> pyexn + fingerprint" where
  "fingerprint_callable H obj =
     (case type_name obj of
        Inl e \<Rightarrow> Inl e
      | Inr tn \<Rightarrow>
          (case fingerprint_try obj of
             Inr (payload, label) \<Rightarrow>
               Inr \<lparr>fp_type = tn, fp_hash = sha256_bytes H payload, fp_where = label\<rparr>
           | Inl e \<Rightarrow>
               (case except_repr e of
                  Inl e' \<Rightarrow> Inl e'
                | Inr text \<Rightarrow>
                    (let tag = ''error:'' @ tn @ '':'' @ take 60 text
                     in Inr \<lparr>fp_type = tn, fp_hash = sha256_bytes H tag, fp_where = tag\<rparr>))))"

subsection \<open>Resolving dotted names\<close>

text \<open>\<^verbatim>\<open>name.split(".")\<close>: the result is never empty.\<close>

fun split_dot :: "string \<Rightarrow> string list" where
  "split_dot [] = [[]]"
| "split_dot (c # cs) =
     (if c = CHR ''.'' then [] # split_dot cs
      else (case split_dot cs of
              [] \<Rightarrow> [[c]]
            | p # ps \<Rightarrow> (c # p) # ps))"

definition getattr :: "world \<Rightarrow> ref \<Rightarrow> string \<Rightarrow> pyexn + ref" where
  "getattr w obj p = attrs (heap w obj) p"

text \<open>The loop \<^verbatim>\<open>for p in parts[1:-1]: obj = getattr(obj, p)\<close>.\<close>

fun walk :: "world \<Rightarrow> ref \<Rightarrow> string list \<Rightarrow> pyexn + ref" where
  "walk w obj [] = Inr obj"
| "walk w obj (p # ps) =
     (case getattr w obj p of
        Inl e \<Rightarrow> Inl e
      | Inr obj' \<Rightarrow> walk w obj' ps)"

text \<open>
  \<^verbatim>\<open>f"{obj.__module__}.{getattr(obj, '__qualname__', obj.__class__.__name__)}"
  if hasattr(obj, "__module__") else repr(obj)\<close>
\<close>

definition container_qual :: "pyobj \<Rightarrow> pyexn + string" where
  "container_qual obj =
     (case hasattr (dunder_module obj) of
        Inl e \<Rightarrow> Inl e
      | Inr True \<Rightarrow>
          (case dunder_module obj of
             Inl e \<Rightarrow> Inl e
           | Inr m \<Rightarrow>
               (case type_name obj of
                  Inl e \<Rightarrow> Inl e
                | Inr tn \<Rightarrow>
                    (case getattr_default (dunder_qualname obj) tn of
                       Inl e \<Rightarrow> Inl e
                     | Inr q \<Rightarrow> Inr (m @ ''.'' @ q))))
      | Inr False \<Rightarrow> repr obj)"

definition resolve_dotted :: "world \<Rightarrow> string \<Rightarrow> pyexn + (ref \<times> ref \<times> string \<times> string)" where
  "resolve_dotted w name =
     (let parts = split_dot name in
      if length parts < 2 then Inl (ValueError (''invalid dotted name: '' @ name))
      else
        (case importer w (hd parts) of
           Inl e \<Rightarrow> Inl e
         | Inr md \<Rightarrow>
             (case walk w md (butlast (tl parts)) of
                Inl e \<Rightarrow> Inl e
              | Inr obj \<Rightarrow>
                  (let attr = last parts in
                   case getattr w obj attr of
                     Inl e \<Rightarrow> Inl e
                   | Inr val \<Rightarrow>
                       (case container_qual (heap w obj) of
                          Inl e \<Rightarrow> Inl e
                        | Inr cq \<Rightarrow> Inr (obj, val, cq, attr))))))"

subsection \<open>The guard: baseline, alerts, report\<close>

record baseline_entry =
  fp :: fingerprint
  container :: string
  attr :: string

text \<open>
  One constructor per \<^verbatim>\<open>kind\<close> of alert dictionary; an \<^verbatim>\<open>error\<close> key holds the
  text of \<^verbatim>\<open>repr(e)\<close>. \<open>Env_changed\<close> carries the dictionaries \<^verbatim>\<open>added\<close>,
  \<^verbatim>\<open>removed\<close> and \<^verbatim>\<open>changed\<close> (key to \<^verbatim>\<open>before\<close> and \<^verbatim>\<open>after\<close>) as
  association lists in insertion order.
\<close>

datatype restore_status = Restore_ok | Restore_fail string

datatype alert =
    Resolve_error string string
  | Replaced string fingerprint fingerprint
  | Restore string restore_status
  | Meta_path_changed "string list" "string list"
  | Env_changed "(string \<times> string) list" "(string \<times> string) list"
      "(string \<times> string \<times> string) list"
  | Exception string

record report =
  duration_sec :: rat
  report_auto_restore :: bool
  report_targets :: "string list"
  report_alerts :: "alert list"

record patchtrap =
  targets :: "string list"
  auto_restore :: bool
  interval :: pyfloat
  baseline :: "string \<rightharpoonup> baseline_entry"
  originals :: "string \<rightharpoonup> ref"
  meta_path0 :: "string list"
  env0 :: "(string \<times> string) list"
  alerts :: "alert list"
  report :: "report option"

text \<open>\<^verbatim>\<open>PatchTrap.__init__\<close>; the empty report dictionary is \<open>None\<close>.\<close>

definition init :: "string list \<Rightarrow> bool \<Rightarrow> pyfloat \<Rightarrow> world \<Rightarrow> patchtrap" where
  "init ts ar iv w =
     \<lparr>targets = ts, auto_restore = ar, interval = max_zero iv,
      baseline = Map.empty, originals = Map.empty,
      meta_path0 = meta_path w, env0 = environ w, alerts = [], report = None\<rparr>"

subsection \<open>Sealing\<close>

text \<open>
  The loop of \<^verbatim>\<open>seal\<close>. Nothing catches what \<^verbatim>\<open>_resolve_dotted\<close> or
  \<^verbatim>\<open>_fingerprint_callable\<close> raises, so the exception leaves the loop; what was stored
  before it stays in the guard. The original is stored before the fingerprint is taken.
\<close>

fun seal_loop ::
  "(string \<Rightarrow> string) \<Rightarrow> world \<Rightarrow> string list \<Rightarrow> patchtrap \<Rightarrow> (pyexn + unit) \<times> patchtrap" where
  "seal_loop H w [] g = (Inr (), g)"
| "seal_loop H w (dotted # rest) g =
     (case resolve_dotted w dotted of
        Inl e \<Rightarrow> (Inl e, g)
      | Inr (cont, val, cq, a) \<Rightarrow>
          (let g1 = g\<lparr>originals := (originals g)(dotted \<mapsto> val)\<rparr> in
           case fingerprint_callable H (heap w val) of
             Inl e \<Rightarrow> (Inl e, g1)
           | Inr f \<Rightarrow>
               seal_loop H w rest
                 (g1\<lparr>baseline := (baseline g1)(dotted \<mapsto>
                        \<lparr>fp = f, container = cq, attr = a\<rparr>)\<rparr>)))"

definition seal :: "(string \<Rightarrow> string) \<Rightarrow> world \<Rightarrow> patchtrap \<Rightarrow> (pyexn + unit) \<times> patchtrap" where
  "seal H w g = seal_loop H w (targets g) g"

subsection \<open>Scanning\<close>

definition append_alert :: "alert \<Rightarrow> patchtrap \<Rightarrow> patchtrap" where
  "append_alert a g = g\<lparr>alerts := alerts g @ [a]\<rparr>"

text \<open>\<^verbatim>\<open>setattr(container, attr, value)\<close>\<close>

definition setattr :: "world \<Rightarrow> ref \<Rightarrow> string \<Rightarrow> ref \<Rightarrow> pyexn + world" where
  "setattr w obj a v =
     (case setattr_raises (heap w obj) a of
        Some e \<Rightarrow> Inl e
      | None \<Rightarrow>
          Inr (w\<lparr>heap := (heap w)(obj := (heap w obj)\<lparr>attrs := (attrs (heap w obj))(a := Inr v)\<rparr>)\<rparr>))"

text \<open>
  The body of the \<^verbatim>\<open>try\<close> of the restore: the lookup of the original, which raises
  \<^verbatim>\<open>KeyError\<close> for a missing key, then \<^verbatim>\<open>setattr\<close>.
\<close>

definition restore_try :: "patchtrap \<Rightarrow> world \<Rightarrow> string \<Rightarrow> ref \<Rightarrow> string \<Rightarrow> pyexn + world" where
  "restore_try g w dotted cont a =
     (case originals g dotted of
        None \<Rightarrow> Inl (KeyError dotted)
      | Some orig \<Rightarrow> setattr w cont a orig)"

text \<open>
  The body of the loop over the targets in \<^verbatim>\<open>_scan_once\<close>. Its result is \<open>Inr ()\<close>
  when the loop goes on with the next target, and the exception when one leaves
  \<^verbatim>\<open>_scan_once\<close>: one that \<^verbatim>\<open>except Exception\<close> does not catch, one raised by
  \<^verbatim>\<open>repr(e)\<close> inside a handler, or one raised by \<^verbatim>\<open>_fingerprint_callable\<close>, which
  is called outside any \<^verbatim>\<open>try\<close>. The guard and the process are returned as they are
  at that point.
\<close>

definition scan_target ::
  "(string \<Rightarrow> string) \<Rightarrow> string \<Rightarrow> patchtrap \<times> world \<Rightarrow> (pyexn + unit) \<times> patchtrap \<times> world" where
  "scan_target H dotted gw =
     (case gw of (g, w) \<Rightarrow>
        (case resolve_dotted w dotted of
           Inl e \<Rightarrow>
             (case except_repr e of
                Inl e' \<Rightarrow> (Inl e', g, w)
              | Inr text \<Rightarrow> (Inr (), append_alert (Resolve_error dotted text) g, w))
         | Inr (cont, current, cq, a) \<Rightarrow>
             (case baseline g dotted of
                None \<Rightarrow> (Inr (), g, w)
              | Some base \<Rightarrow>
                  (case fingerprint_callable H (heap w current) of
                     Inl e \<Rightarrow> (Inl e, g, w)
                   | Inr fp_now \<Rightarrow>
                       if fp_hash fp_now \<noteq> fp_hash (fp base) then
                         (let g1 = append_alert (Replaced dotted (fp base) fp_now) g in
                          if auto_restore g1 then
                            (case restore_try g1 w dotted cont a of
                               Inr w' \<Rightarrow> (Inr (), append_alert (Restore dotted Restore_ok) g1, w')
                             | Inl e \<Rightarrow>
                                 (case except_repr e of
                                    Inl e' \<Rightarrow> (Inl e', g1, w)
                                  | Inr text \<Rightarrow>
                                      (Inr (),
                                       append_alert (Restore dotted (Restore_fail text)) g1, w)))
                          else (Inr (), g1, w))
                       else (Inr (), g, w)))))"

fun scan_targets ::
  "(string \<Rightarrow> string) \<Rightarrow> string list \<Rightarrow> patchtrap \<times> world \<Rightarrow> (pyexn + unit) \<times> patchtrap \<times> world" where
  "scan_targets H [] gw = (Inr (), gw)"
| "scan_targets H (dotted # rest) gw =
     (case scan_target H dotted gw of
        (Inl e, gw') \<Rightarrow> (Inl e, gw')
      | (Inr u, gw') \<Rightarrow> scan_targets H rest gw')"

text \<open>The check of \<^verbatim>\<open>sys.meta_path\<close>.\<close>

definition scan_meta_path :: "patchtrap \<times> world \<Rightarrow> patchtrap \<times> world" where
  "scan_meta_path gw =
     (case gw of (g, w) \<Rightarrow>
        (let mp_now = meta_path w in
         if mp_now \<noteq> meta_path0 g
         then (append_alert (Meta_path_changed (meta_path0 g) mp_now) g, w)
         else (g, w)))"

text \<open>
  The keys of a dictionary as a set (\<^verbatim>\<open>set(env)\<close>), the three sorted key lists, and
  the three dictionary comprehensions. A key of a comprehension is a key of the dictionary
  it is looked up in, so no lookup fails.
\<close>

definition env_keys :: "(string \<times> string) list \<Rightarrow> string list" where
  "env_keys env = remdups (map fst env)"

definition env_added :: "(string \<times> string) list \<Rightarrow> (string \<times> string) list \<Rightarrow> string list" where
  "env_added env_then env_now = sort [k \<leftarrow> env_keys env_now. k \<notin> set (env_keys env_then)]"

definition env_removed :: "(string \<times> string) list \<Rightarrow> (string \<times> string) list \<Rightarrow> string list" where
  "env_removed env_then env_now = sort [k \<leftarrow> env_keys env_then. k \<notin> set (env_keys env_now)]"

definition env_changed :: "(string \<times> string) list \<Rightarrow> (string \<times> string) list \<Rightarrow> string list" where
  "env_changed env_then env_now =
     sort [k \<leftarrow> env_keys env_now.
             k \<in> set (env_keys env_then) \<and> map_of env_now k \<noteq> map_of env_then k]"

definition lookup_all :: "(string \<times> string) list \<Rightarrow> string list \<Rightarrow> (string \<times> string) list" where
  "lookup_all env ks = List.map_filter (\<lambda>k. map_option (Pair k) (map_of env k)) ks"

definition before_after ::
  "(string \<times> string) list \<Rightarrow> (string \<times> string) list \<Rightarrow> string list
     \<Rightarrow> (string \<times> string \<times> string) list" where
  "before_after env_then env_now ks =
     List.map_filter
       (\<lambda>k. case map_of env_then k of
               None \<Rightarrow> None
             | Some b \<Rightarrow> (case map_of env_now k of None \<Rightarrow> None | Some a \<Rightarrow> Some (k, b, a)))
       ks"

definition scan_env :: "patchtrap \<times> world \<Rightarrow> patchtrap \<times> world" where
  "scan_env gw =
     (case gw of (g, w) \<Rightarrow>
        (let env_now = environ w;
             added = env_added (env0 g) env_now;
             removed = env_removed (env0 g) env_now;
             changed = env_changed (env0 g) env_now
         in if added \<noteq> [] \<or> removed \<noteq> [] \<or> changed \<noteq> []
            then (append_alert
                    (Env_changed (lookup_all env_now added) (lookup_all (env0 g) removed)
                       (before_after (env0 g) env_now changed)) g, w)
            else (g, w)))"

text \<open>
  \<^verbatim>\<open>_scan_once\<close>: an exception that leaves the loop over the targets leaves the
  function, before the checks of \<^verbatim>\<open>sys.meta_path\<close> and of the environment.
\<close>

definition scan_once ::
  "(string \<Rightarrow> string) \<Rightarrow> patchtrap \<times> world \<Rightarrow> (pyexn + unit) \<times> patchtrap \<times> world" where
  "scan_once H gw =
     (case scan_targets H (targets (fst gw)) gw of
        (Inl e, gw') \<Rightarrow> (Inl e, gw')
      | (Inr u, gw') \<Rightarrow> (Inr (), scan_env (scan_meta_path gw')))"

subsection \<open>The execution harness\<close>

text \<open>
  \<^verbatim>\<open>int(getattr(e, "code", 0) or 0)\<close> for the code of a \<^verbatim>\<open>SystemExit\<close>:
  \<^verbatim>\<open>None\<close> and the integer 0 are false and give 0, another integer gives itself, and
  for another object \<^verbatim>\<open>bool\<close> is called, and \<^verbatim>\<open>int\<close> when it is true.
\<close>

fun exit_status :: "exit_code \<Rightarrow> pyexn + int" where
  "exit_status Code_none = Inr 0"
| "exit_status (Code_int n) = Inr n"
| "exit_status (Code_object t r) =
     (case t of
        Inl e \<Rightarrow> Inl e
      | Inr b \<Rightarrow> (if b then r else Inr 0))"

text \<open>
  The guarded program: \<open>None\<close> when \<^verbatim>\<open>runpy.run_path\<close> returns, the exception when
  it raises one.
\<close>

type_synonym program = "string \<Rightarrow> world \<Rightarrow> pyexn option \<times> world"

text \<open>
  What the harness does to the outside, in order. A console line is given by its format
  and arguments; \<open>Json_dump\<close> is the call of \<^verbatim>\<open>json.dump\<close> on the file opened for
  writing, with its \<^verbatim>\<open>indent\<close> and \<^verbatim>\<open>sort_keys\<close>; \<open>Scan\<close> marks a call of
  \<^verbatim>\<open>_scan_once\<close> and \<open>Sleep\<close> a call of \<^verbatim>\<open>time.sleep\<close>, whether or not the call
  returns.
\<close>

datatype console =
    Sealed_targets nat
  | Run_begin string
  | Run_end_ok
  | Run_end_SystemExit int
  | Run_end_exception
  | Report_saved

datatype action =
    Print console
  | Run_path string
  | Sleep pyfloat
  | Scan
  | Json_dump string report nat bool

record state =
  self :: patchtrap
  proc :: world
  actions :: "action list"

definition act :: "action \<Rightarrow> state \<Rightarrow> state" where
  "act a s = s\<lparr>actions := actions s @ [a]\<rparr>"

text \<open>
  A step of the body of the \<^verbatim>\<open>try\<close> returns or raises; \<open>then_do\<close> goes on with the
  next statement when the step returns.
\<close>

definition then_do ::
  "(pyexn + unit) \<times> state \<Rightarrow> (state \<Rightarrow> (pyexn + unit) \<times> state) \<Rightarrow> (pyexn + unit) \<times> state" where
  "then_do r f = (case r of (Inl e, s) \<Rightarrow> (Inl e, s) | (Inr u, s) \<Rightarrow> f s)"

definition do_scan :: "(string \<Rightarrow> string) \<Rightarrow> state \<Rightarrow> (pyexn + unit) \<times> state" where
  "do_scan H s =
     (case scan_once H (self s, proc s) of
        (r, g, w) \<Rightarrow> (r, act Scan (s\<lparr>self := g, proc := w\<rparr>)))"

definition run_path :: "program \<Rightarrow> string \<Rightarrow> state \<Rightarrow> (pyexn + unit) \<times> state" where
  "run_path runpy target_path s =
     (case runpy target_path (proc s) of
        (out, w) \<Rightarrow>
          (case out of None \<Rightarrow> Inr () | Some e \<Rightarrow> Inl e,
           act (Run_path target_path) (s\<lparr>proc := w\<rparr>)))"

text \<open>\<^verbatim>\<open>time.sleep(d)\<close>: it raises, or the clock advances by the duration.\<close>

definition sleep :: "pyfloat \<Rightarrow> state \<Rightarrow> (pyexn + unit) \<times> state" where
  "sleep d s =
     (case d of
        Finite r \<Rightarrow>
          (case sleep_raises (proc s) r of
             Some e \<Rightarrow> (Inl e, act (Sleep d) s)
           | None \<Rightarrow> (Inr (), act (Sleep d) (s\<lparr>proc := (proc s)\<lparr>clock := clock (proc s) + r\<rparr>\<rparr>)))
      | _ \<Rightarrow> (Inl (sleep_overflow (proc s)), act (Sleep d) s))"

text \<open>\<^verbatim>\<open>args_line.split()\<close>: split at runs of whitespace.\<close>

definition is_space :: "char \<Rightarrow> bool" where
  "is_space c =
     (c \<in> set [CHR 0x09, CHR 0x0A, CHR 0x0B, CHR 0x0C, CHR 0x0D,
               CHR 0x1C, CHR 0x1D, CHR 0x1E, CHR 0x1F, CHR 0x20])"

fun split_ws :: "string \<Rightarrow> string \<Rightarrow> string list" where
  "split_ws cur [] = (if cur = [] then [] else [rev cur])"
| "split_ws cur (c # cs) =
     (if is_space c then (if cur = [] then split_ws [] cs else rev cur # split_ws [] cs)
      else split_ws (c # cur) cs)"

definition py_split :: "string \<Rightarrow> string list" where
  "py_split s = split_ws [] s"

text \<open>\<^verbatim>\<open>round(x, 3)\<close>, on exact values: to the nearest thousandth, ties to even.\<close>

definition round3 :: "rat \<Rightarrow> rat" where
  "round3 x =
     (let y = x * 1000; f = \<lfloor>y\<rfloor>; r = y - of_int f
      in of_int (if r < 1 / 2 then f
                 else if 1 / 2 < r then f + 1
                 else if even f then f else f + 1) / 1000)"

text \<open>
  The body of the \<^verbatim>\<open>try\<close>: its result is \<open>Inr ()\<close> when it reaches its last line, and
  otherwise the exception raised by the guarded program, by a scan or by
  \<^verbatim>\<open>time.sleep\<close>, with the state at the point where it was raised.
\<close>

definition run_try ::
  "(string \<Rightarrow> string) \<Rightarrow> program \<Rightarrow> string \<Rightarrow> state \<Rightarrow> (pyexn + unit) \<times> state" where
  "run_try H runpy target_path s =
     (let s1 = act (Print (Sealed_targets (length (targets (self s))))) s;
          s2 = act (Print (Run_begin target_path)) s1
      in if positive (interval (self s2)) then
           then_do (do_scan H s2) (\<lambda>s3.
           then_do (run_path runpy target_path s3) (\<lambda>s4.
           then_do (sleep (interval (self s4)) s4) (\<lambda>s5.
           then_do (do_scan H s5) (\<lambda>s6.
           (Inr (), act (Print Run_end_ok) s6)))))
         else
           then_do (run_path runpy target_path s2) (\<lambda>s3.
           then_do (do_scan H s3) (\<lambda>s4.
           (Inr (), act (Print Run_end_ok) s4))))"

text \<open>
  The \<^verbatim>\<open>except\<close> clauses, applied to the result of the body of the \<^verbatim>\<open>try\<close>: the
  value of \<^verbatim>\<open>rc\<close>, or the exception that leaves \<^verbatim>\<open>run\<close> (one that no clause
  catches, or one raised inside a clause by \<^verbatim>\<open>int\<close>, \<^verbatim>\<open>bool\<close> or \<^verbatim>\<open>repr\<close>).
\<close>

definition run_except :: "pyexn + unit \<Rightarrow> state \<Rightarrow> (pyexn + int) \<times> state" where
  "run_except r s =
     (case r of
        Inr u \<Rightarrow> (Inr 0, s)
      | Inl (SystemExit c) \<Rightarrow>
          (case exit_status c of
             Inl e \<Rightarrow> (Inl e, s)
           | Inr rc \<Rightarrow> (Inr rc, act (Print (Run_end_SystemExit rc)) s))
      | Inl (Raised cls rp) \<Rightarrow>
          (case except_repr (Raised cls rp) of
             Inl e \<Rightarrow> (Inl e, s)
           | Inr text \<Rightarrow>
               (Inr 1,
                act (Print Run_end_exception) (s\<lparr>self := append_alert (Exception text) (self s)\<rparr>))))"

text \<open>The \<^verbatim>\<open>finally\<close> clause.\<close>

definition run_finally :: "string list \<Rightarrow> rat \<Rightarrow> state \<Rightarrow> state" where
  "run_finally old_argv start s =
     (let s1 = s\<lparr>proc := (proc s)\<lparr>argv := old_argv\<rparr>\<rparr>;
          dur = round3 (clock (proc s1) - start);
          rep = \<lparr>duration_sec = dur, report_auto_restore = auto_restore (self s1),
                 report_targets = targets (self s1), report_alerts = alerts (self s1)\<rparr>;
          s2 = s1\<lparr>self := (self s1)\<lparr>report := Some rep\<rparr>\<rparr>;
          s3 = act (Json_dump ''patchtrap_report.json'' rep 2 True) s2
      in act (Print Report_saved) s3)"

definition run ::
  "(string \<Rightarrow> string) \<Rightarrow> program \<Rightarrow> string \<Rightarrow> string \<Rightarrow> state \<Rightarrow> (pyexn + int) \<times> state" where
  "run H runpy target_path args_line s =
     (let old_argv = argv (proc s);
          s0 = s\<lparr>proc := (proc s)\<lparr>argv :=
                 target_path # (if args_line \<noteq> [] then py_split args_line else [])\<rparr>\<rparr>;
          start = clock (proc s0)
      in case run_try H runpy target_path s0 of
           (r, s1) \<Rightarrow>
             (case run_except r s1 of
                (res, s2) \<Rightarrow> (res, run_finally old_argv start s2)))"

subsection \<open>Notions used in the statements\<close>

text \<open>
  The parts of \<^verbatim>\<open>run\<close> around the call of \<^verbatim>\<open>runpy.run_path\<close>: \<open>prepared\<close> is
  the state after \<^verbatim>\<open>sys.argv\<close> is set and the two console lines are printed;
  \<open>pre_scan\<close> is the scan made before the guarded program when the interval is
  positive, with its result; \<open>handed\<close> is the state in which the guarded program is
  started when that scan has returned, and \<open>ends\<close> is how the program ends when started
  there; \<open>launched\<close> is the state when \<^verbatim>\<open>runpy.run_path\<close> has returned or raised;
  \<open>after_program\<close> is what the body of the \<^verbatim>\<open>try\<close> does between the return of the
  program and its last console line.
\<close>

definition prepared :: "string \<Rightarrow> string \<Rightarrow> state \<Rightarrow> state" where
  "prepared target_path args_line s =
     (let s0 = s\<lparr>proc := (proc s)\<lparr>argv :=
                 target_path # (if args_line \<noteq> [] then py_split args_line else [])\<rparr>\<rparr>;
          s1 = act (Print (Sealed_targets (length (targets (self s0))))) s0
      in act (Print (Run_begin target_path)) s1)"

definition pre_scan ::
  "(string \<Rightarrow> string) \<Rightarrow> string \<Rightarrow> string \<Rightarrow> state \<Rightarrow> (pyexn + unit) \<times> state" where
  "pre_scan H target_path args_line s =
     (if positive (interval (self s)) then do_scan H (prepared target_path args_line s)
      else (Inr (), prepared target_path args_line s))"

definition handed :: "(string \<Rightarrow> string) \<Rightarrow> string \<Rightarrow> string \<Rightarrow> state \<Rightarrow> state" where
  "handed H target_path args_line s = snd (pre_scan H target_path args_line s)"

definition ends ::
  "(string \<Rightarrow> string) \<Rightarrow> program \<Rightarrow> string \<Rightarrow> string \<Rightarrow> state \<Rightarrow> pyexn option" where
  "ends H runpy target_path args_line s =
     fst (runpy target_path (proc (handed H target_path args_line s)))"

definition launched ::
  "(string \<Rightarrow> string) \<Rightarrow> program \<Rightarrow> string \<Rightarrow> string \<Rightarrow> state \<Rightarrow> state" where
  "launched H runpy target_path args_line s =
     snd (run_path runpy target_path (handed H target_path args_line s))"

definition after_program :: "(string \<Rightarrow> string) \<Rightarrow> state \<Rightarrow> (pyexn + unit) \<times> state" where
  "after_program H s =
     (if positive (interval (self s))
      then then_do (sleep (interval (self s)) s) (do_scan H)
      else do_scan H s)"


text \<open>The \<^verbatim>\<open>target\<close> key of an alert, for the kinds that have one, and tests of the kind.\<close>

fun alert_target :: "alert \<Rightarrow> string option" where
  "alert_target (Resolve_error d e) = Some d"
| "alert_target (Replaced d b a) = Some d"
| "alert_target (Restore d st) = Some d"
| "alert_target _ = None"

fun is_replaced :: "alert \<Rightarrow> bool" where
  "is_replaced (Replaced d b a) = True"
| "is_replaced _ = False"

fun is_restore :: "alert \<Rightarrow> bool" where
  "is_restore (Restore d st) = True"
| "is_restore _ = False"

fun is_env_changed :: "alert \<Rightarrow> bool" where
  "is_env_changed (Env_changed a r c) = True"
| "is_env_changed _ = False"


text \<open>
  The category of a value is the branch of \<^verbatim>\<open>_fingerprint_callable\<close> that produces
  its fingerprint, and \<open>hashed\<close> is the byte string which that branch passes to
  \<^verbatim>\<open>_sha256_bytes\<close>, for a value that gets a fingerprint.
\<close>

datatype category =
  Interpreted_unit | Opaque_native | Generic_callable | Non_callable | Fingerprint_error

definition category :: "pyobj \<Rightarrow> category" where
  "category obj =
     (case fingerprint_try obj of
        Inl e \<Rightarrow> Fingerprint_error
      | Inr pl \<Rightarrow>
          (if isfunction obj \<or> ismethod obj then Interpreted_unit
           else if isbuiltin obj then Opaque_native
           else if is_callable obj then Generic_callable
           else Non_callable))"

definition hashed :: "pyobj \<Rightarrow> pyexn + string" where
  "hashed obj =
     (case type_name obj of
        Inl e \<Rightarrow> Inl e
      | Inr tn \<Rightarrow>
          (case fingerprint_try obj of
             Inr (payload, label) \<Rightarrow> Inr payload
           | Inl e \<Rightarrow>
               (case except_repr e of
                  Inl e' \<Rightarrow> Inl e'
                | Inr text \<Rightarrow> Inr (''error:'' @ tn @ '':'' @ take 60 text))))"



subsection \<open>Example processes\<close>

text \<open>
  A module \<^verbatim>\<open>m\<close> (object 0) with a function \<^verbatim>\<open>m.f\<close> (object 1); object 2 is
  another function, object 4 a callable whose \<^verbatim>\<open>__repr__\<close> raises
  \<^verbatim>\<open>SystemExit(5)\<close>, and every other object a plain object without attributes. The hash
  of the examples is the identity, which has no collisions. \<^verbatim>\<open>time.sleep\<close> refuses
  durations from 9.3e9 seconds.
\<close>

definition no_attribute :: pyexn where
  "no_attribute = Raised Cls_AttributeError (Inr ''AttributeError()'')"

definition runtime_error :: pyexn where
  "runtime_error = Raised Cls_Exception (Inr ''RuntimeError()'')"

definition overflow_error :: pyexn where
  "overflow_error = Raised Cls_Exception (Inr ''OverflowError()'')"

definition blank :: pyobj where
  "blank =
     \<lparr>attrs = (\<lambda>n. Inl no_attribute), setattr_raises = (\<lambda>n. None), type_name = Inr ''object'',
      isfunction = False, ismethod = False, isbuiltin = False, is_callable = False,
      dunder_code = Inl no_attribute, dunder_module = Inl no_attribute,
      dunder_qualname = Inl no_attribute, dunder_name = Inl no_attribute,
      class_module = ''builtins'', class_qualname = ''object'', repr = Inr ''<object>''\<rparr>"

definition func :: "string \<Rightarrow> string \<Rightarrow> pyobj" where
  "func nm body =
     blank\<lparr>type_name := Inr ''function'', isfunction := True, is_callable := True,
           dunder_code := Inr \<lparr>co_code = body, co_consts = ''(None,)'', co_names = ''()'',
                                co_varnames = ''()'', co_filename = ''m.py'',
                                co_firstlineno = ''1''\<rparr>,
           dunder_module := Inr ''m'', dunder_qualname := Inr nm, dunder_name := Inr nm,
           class_qualname := ''function'', repr := Inr ''<function>''\<rparr>"

definition module_m :: pyobj where
  "module_m =
     blank\<lparr>attrs := (\<lambda>n. if n = ''f'' then Inr 1 else Inl no_attribute),
           type_name := Inr ''module'', dunder_name := Inr ''m'',
           class_qualname := ''module'', repr := Inr ''<module m>''\<rparr>"

definition exit_repr :: pyobj where
  "exit_repr =
     blank\<lparr>type_name := Inr ''X'', is_callable := True, class_module := ''m'',
           class_qualname := ''X'', repr := Inl (SystemExit (Code_int 5))\<rparr>"

definition heap_ex :: "ref \<Rightarrow> pyobj" where
  "heap_ex r =
     (if r = 0 then module_m
      else if r = 1 then func ''f'' ''original''
      else if r = 2 then func ''g'' ''patched''
      else if r = 4 then exit_repr
      else blank)"

definition world_ex :: world where
  "world_ex =
     \<lparr>importer = (\<lambda>n. if n = ''m'' then Inr 0
                        else Inl (Raised Cls_Exception (Inr ''ModuleNotFoundError()''))),
      heap = heap_ex, meta_path = [''PathFinder''],
      environ = [(''B'', ''1''), (''C'', ''x'')],
      argv = [''patchtrap.py'', ''run'', ''script.py''], clock = 100,
      sleep_raises = (\<lambda>d. if 9300000000 \<le> d then Some overflow_error else None),
      sleep_overflow = overflow_error\<rparr>"

text \<open>The guarded program rebinds \<^verbatim>\<open>m.f\<close> to an object.\<close>

definition rebind_f :: "ref \<Rightarrow> world \<Rightarrow> world" where
  "rebind_f v w =
     w\<lparr>heap := (heap w)(0 := (heap w 0)\<lparr>attrs := (attrs (heap w 0))(''f'' := Inr v)\<rparr>)\<rparr>"

definition patch_f :: "world \<Rightarrow> world" where
  "patch_f w = rebind_f 2 w"

definition guard_ex :: "bool \<Rightarrow> pyfloat \<Rightarrow> string list \<Rightarrow> patchtrap" where
  "guard_ex ar iv ts = snd (seal id world_ex (init ts ar iv world_ex))"

definition state_ex :: "bool \<Rightarrow> pyfloat \<Rightarrow> string list \<Rightarrow> state" where
  "state_ex ar iv ts = \<lparr>self = guard_ex ar iv ts, proc = world_ex, actions = []\<rparr>"

text \<open>
  A builtin function \<^verbatim>\<open>f\<close> of an extension module \<^verbatim>\<open>pkg.mod\<close>, and a callable
  instance of a class \<^verbatim>\<open>mod\<close> defined in the module \<^verbatim>\<open>pkg\<close> whose
  \<^verbatim>\<open>__repr__\<close> returns \<^verbatim>\<open>f:<built-in function f>\<close>; an object whose
  \<^verbatim>\<open>__repr__\<close> raises an \<^verbatim>\<open>Exception\<close>.
\<close>

definition builtin_f :: pyobj where
  "builtin_f =
     blank\<lparr>type_name := Inr ''builtin_function_or_method'', isbuiltin := True,
           is_callable := True, dunder_module := Inr ''pkg.mod'', dunder_qualname := Inr ''f'',
           dunder_name := Inr ''f'', class_qualname := ''builtin_function_or_method'',
           repr := Inr ''<built-in function f>''\<rparr>"

definition callable_mod :: pyobj where
  "callable_mod =
     blank\<lparr>type_name := Inr ''mod'', is_callable := True, dunder_module := Inr ''pkg'',
           class_module := ''pkg'', class_qualname := ''mod'',
           repr := Inr ''f:<built-in function f>''\<rparr>"

definition bad_repr :: pyobj where
  "bad_repr = blank\<lparr>repr := Inl runtime_error\<rparr>"






section \<open>Properties\<close>

subsection \<open>Frame lemmas for a scan\<close>

lemma act_simps [simp]:
  "self (act a s) = self s" "proc (act a s) = proc s" "actions (act a s) = actions s @ [a]"
  by (simp_all add: act_def)

lemma append_alert_simps [simp]:
  "alerts (append_alert a g) = alerts g @ [a]"
  "targets (append_alert a g) = targets g"
  "auto_restore (append_alert a g) = auto_restore g"
  "interval (append_alert a g) = interval g"
  "baseline (append_alert a g) = baseline g"
  "originals (append_alert a g) = originals g"
  "meta_path0 (append_alert a g) = meta_path0 g"
  "env0 (append_alert a g) = env0 g"
  "report (append_alert a g) = report g"
  by (simp_all add: append_alert_def)

lemma setattr_world: "setattr w c a v = Inr w' \<Longrightarrow> w' = w\<lparr>heap := heap w'\<rparr>"
  by (auto simp: setattr_def split: option.splits)

lemma restore_try_world: "restore_try g w d c a = Inr w' \<Longrightarrow> w' = w\<lparr>heap := heap w'\<rparr>"
  by (auto simp: restore_try_def dest: setattr_world split: option.splits)

lemma scan_target_guard:
  "fst (snd (scan_target H d gw)) = (fst gw)\<lparr>alerts := alerts (fst (snd (scan_target H d gw)))\<rparr>"
  by (cases gw)
     (simp add: scan_target_def append_alert_def Let_def
           split: sum.splits option.splits prod.splits)

lemma scan_target_world:
  "snd (snd (scan_target H d gw)) = (snd gw)\<lparr>heap := heap (snd (snd (scan_target H d gw)))\<rparr>"
  by (cases gw)
     (auto simp: scan_target_def Let_def dest: restore_try_world
           split: sum.splits option.splits prod.splits)

lemma scan_target_new:
  "\<exists>new. alerts (fst (snd (scan_target H d gw))) = alerts (fst gw) @ new
         \<and> (\<forall>x\<in>set new. alert_target x = Some d)"
  by (cases gw)
     (simp add: scan_target_def Let_def
           split: sum.splits option.splits prod.splits)

lemma scan_targets_step:
  "scan_targets H (d # ds) gw =
     (if fst (scan_target H d gw) = Inr () then scan_targets H ds (snd (scan_target H d gw))
      else scan_target H d gw)"
  by (cases "scan_target H d gw"; cases "fst (scan_target H d gw)") auto

lemma scan_targets_guard:
  "fst (snd (scan_targets H ds gw)) = (fst gw)\<lparr>alerts := alerts (fst (snd (scan_targets H ds gw)))\<rparr>"
proof (induction ds arbitrary: gw)
  case Nil
  show ?case by simp
next
  case (Cons d ds)
  show ?case
  proof (cases "fst (scan_target H d gw) = Inr ()")
    case True
    have "fst (snd (scan_targets H (d # ds) gw))
            = (fst (snd (scan_target H d gw)))\<lparr>alerts := alerts (fst (snd (scan_targets H (d # ds) gw)))\<rparr>"
      using Cons.IH [of "snd (scan_target H d gw)"] True by (simp add: scan_targets_step del: scan_targets.simps)
    also have "\<dots> = (fst gw)\<lparr>alerts := alerts (fst (snd (scan_targets H (d # ds) gw)))\<rparr>"
      by (subst scan_target_guard) simp
    finally show ?thesis .
  next
    case False
    then show ?thesis using scan_target_guard [of H d gw] by (simp add: scan_targets_step del: scan_targets.simps)
  qed
qed

lemma scan_targets_world:
  "snd (snd (scan_targets H ds gw)) = (snd gw)\<lparr>heap := heap (snd (snd (scan_targets H ds gw)))\<rparr>"
proof (induction ds arbitrary: gw)
  case Nil
  show ?case by simp
next
  case (Cons d ds)
  show ?case
  proof (cases "fst (scan_target H d gw) = Inr ()")
    case True
    have "snd (snd (scan_targets H (d # ds) gw))
            = (snd (snd (scan_target H d gw)))\<lparr>heap := heap (snd (snd (scan_targets H (d # ds) gw)))\<rparr>"
      using Cons.IH [of "snd (scan_target H d gw)"] True by (simp add: scan_targets_step del: scan_targets.simps)
    also have "\<dots> = (snd gw)\<lparr>heap := heap (snd (snd (scan_targets H (d # ds) gw)))\<rparr>"
      by (subst scan_target_world) simp
    finally show ?thesis .
  next
    case False
    then show ?thesis using scan_target_world [of H d gw] by (simp add: scan_targets_step del: scan_targets.simps)
  qed
qed

lemma scan_targets_new:
  "\<exists>new. alerts (fst (snd (scan_targets H ds gw))) = alerts (fst gw) @ new
         \<and> (\<forall>x\<in>set new. \<exists>d\<in>set ds. alert_target x = Some d)"
proof (induction ds arbitrary: gw)
  case Nil
  show ?case by simp
next
  case (Cons d ds)
  obtain n1 where n1: "alerts (fst (snd (scan_target H d gw))) = alerts (fst gw) @ n1"
      "\<forall>x\<in>set n1. alert_target x = Some d"
    using scan_target_new by blast
  show ?case
  proof (cases "fst (scan_target H d gw) = Inr ()")
    case True
    obtain n2 where n2:
      "alerts (fst (snd (scan_targets H ds (snd (scan_target H d gw)))))
         = alerts (fst (snd (scan_target H d gw))) @ n2"
      "\<forall>x\<in>set n2. \<exists>d\<in>set ds. alert_target x = Some d"
      using Cons.IH by blast
    have "alerts (fst (snd (scan_targets H (d # ds) gw))) = alerts (fst gw) @ (n1 @ n2)"
      using n1 n2 True by (simp add: scan_targets_step del: scan_targets.simps)
    moreover have "\<forall>x\<in>set (n1 @ n2). \<exists>d'\<in>set (d # ds). alert_target x = Some d'"
      using n1 n2 by auto
    ultimately show ?thesis by blast
  next
    case False
    have "alerts (fst (snd (scan_targets H (d # ds) gw))) = alerts (fst gw) @ n1"
      using n1 False by (simp add: scan_targets_step del: scan_targets.simps)
    moreover have "\<forall>x\<in>set n1. \<exists>d'\<in>set (d # ds). alert_target x = Some d'"
      using n1 by auto
    ultimately show ?thesis by blast
  qed
qed

lemma scan_meta_path_guard:
  "fst (scan_meta_path gw) = (fst gw)\<lparr>alerts := alerts (fst (scan_meta_path gw))\<rparr>"
  by (cases gw) (simp add: scan_meta_path_def append_alert_def Let_def)

lemma scan_meta_path_world: "snd (scan_meta_path gw) = snd gw"
  by (cases gw) (simp add: scan_meta_path_def Let_def)

lemma scan_meta_path_new:
  "\<exists>new. alerts (fst (scan_meta_path gw)) = alerts (fst gw) @ new
         \<and> (\<forall>x\<in>set new. \<not> is_env_changed x \<and> alert_target x = None)"
  by (cases gw) (simp add: scan_meta_path_def Let_def)

lemma scan_env_guard:
  "fst (scan_env gw) = (fst gw)\<lparr>alerts := alerts (fst (scan_env gw))\<rparr>"
  by (cases gw) (simp add: scan_env_def append_alert_def Let_def)

lemma scan_env_world: "snd (scan_env gw) = snd gw"
  by (cases gw) (simp add: scan_env_def Let_def)

lemma scan_env_result:
  "alerts (fst (scan_env (g, w))) =
     alerts g @
       (if env_added (env0 g) (environ w) \<noteq> [] \<or> env_removed (env0 g) (environ w) \<noteq> []
           \<or> env_changed (env0 g) (environ w) \<noteq> []
        then [Env_changed (lookup_all (environ w) (env_added (env0 g) (environ w)))
                (lookup_all (env0 g) (env_removed (env0 g) (environ w)))
                (before_after (env0 g) (environ w) (env_changed (env0 g) (environ w)))]
        else [])"
  by (simp add: scan_env_def Let_def)

lemma scan_once_eq:
  "scan_once H gw =
     (if fst (scan_targets H (targets (fst gw)) gw) = Inr ()
      then (Inr (), scan_env (scan_meta_path (snd (scan_targets H (targets (fst gw)) gw))))
      else scan_targets H (targets (fst gw)) gw)"
  by (cases "scan_targets H (targets (fst gw)) gw";
      cases "fst (scan_targets H (targets (fst gw)) gw)")
     (auto simp: scan_once_def)

lemma scan_once_guard:
  "fst (snd (scan_once H gw)) = (fst gw)\<lparr>alerts := alerts (fst (snd (scan_once H gw)))\<rparr>"
proof (cases "fst (scan_targets H (targets (fst gw)) gw) = Inr ()")
  case True
  show ?thesis
    unfolding scan_once_eq using True
    by (simp, subst scan_env_guard, subst scan_meta_path_guard, subst scan_targets_guard) simp
next
  case False
  then show ?thesis
    unfolding scan_once_eq using scan_targets_guard [of H "targets (fst gw)" gw] by simp
qed

lemma scan_once_world:
  "snd (snd (scan_once H gw)) = (snd gw)\<lparr>heap := heap (snd (snd (scan_once H gw)))\<rparr>"
proof (cases "fst (scan_targets H (targets (fst gw)) gw) = Inr ()")
  case True
  show ?thesis
    unfolding scan_once_eq using True scan_targets_world [of H "targets (fst gw)" gw]
    by (simp add: scan_env_world scan_meta_path_world)
next
  case False
  then show ?thesis
    unfolding scan_once_eq using scan_targets_world [of H "targets (fst gw)" gw] by simp
qed

text \<open>The alerts of a scan after those of its loop over the targets have no target.\<close>

lemma scan_once_other_alerts:
  "\<exists>n. alerts (fst (snd (scan_once H gw)))
          = alerts (fst (snd (scan_targets H (targets (fst gw)) gw))) @ n
       \<and> (\<forall>x\<in>set n. alert_target x = None)"
proof (cases "fst (scan_targets H (targets (fst gw)) gw) = Inr ()")
  case True
  let ?t = "snd (scan_targets H (targets (fst gw)) gw)"
  let ?m = "scan_meta_path ?t"
  obtain n2 where n2: "alerts (fst ?m) = alerts (fst ?t) @ n2"
      "\<forall>x\<in>set n2. \<not> is_env_changed x \<and> alert_target x = None"
    using scan_meta_path_new [of ?t] by blast
  obtain n3 where n3: "alerts (fst (scan_env ?m)) = alerts (fst ?m) @ n3"
      "\<forall>x\<in>set n3. alert_target x = None"
    using scan_env_result [of "fst ?m" "snd ?m"] by (cases "?m") auto
  have "alerts (fst (snd (scan_once H gw))) = alerts (fst ?t) @ (n2 @ n3)"
    using n2(1) n3(1) True by (simp add: scan_once_eq)
  moreover have "\<forall>x\<in>set (n2 @ n3). alert_target x = None" using n2(2) n3(2) by auto
  ultimately show ?thesis by blast
next
  case False
  then show ?thesis by (simp add: scan_once_eq)
qed


lemma do_scan_self:
  "self (snd (do_scan H s)) = (self s)\<lparr>alerts := alerts (self (snd (do_scan H s)))\<rparr>"
  using scan_once_guard [of H "(self s, proc s)"]
  by (simp add: do_scan_def case_prod_beta)

lemma do_scan_proc:
  "proc (snd (do_scan H s)) = (proc s)\<lparr>heap := heap (proc (snd (do_scan H s)))\<rparr>"
  using scan_once_world [of H "(self s, proc s)"]
  by (simp add: do_scan_def case_prod_beta)


lemma do_scan_actions: "actions (snd (do_scan H s)) = actions s @ [Scan]"
  by (simp add: do_scan_def case_prod_beta)

lemma do_scan_fields [simp]:
  "targets (self (snd (do_scan H s))) = targets (self s)"
  "auto_restore (self (snd (do_scan H s))) = auto_restore (self s)"
  "interval (self (snd (do_scan H s))) = interval (self s)"
  "argv (proc (snd (do_scan H s))) = argv (proc s)"
  "clock (proc (snd (do_scan H s))) = clock (proc s)"
  "environ (proc (snd (do_scan H s))) = environ (proc s)"
  "sleep_raises (proc (snd (do_scan H s))) = sleep_raises (proc s)"
  by (subst do_scan_self, simp, subst do_scan_self, simp, subst do_scan_self, simp,
      subst do_scan_proc, simp, subst do_scan_proc, simp, subst do_scan_proc, simp,
      subst do_scan_proc, simp)

subsection \<open>The harness in three steps\<close>

lemma then_do_eq: "then_do r f = (if fst r = Inr () then f (snd r) else r)"
  by (cases r; cases "fst r") (auto simp: then_do_def)

lemma run_path_simps [simp]:
  "fst (run_path runpy p s) = (case fst (runpy p (proc s)) of None \<Rightarrow> Inr () | Some e \<Rightarrow> Inl e)"
  "self (snd (run_path runpy p s)) = self s"
  "proc (snd (run_path runpy p s)) = snd (runpy p (proc s))"
  "actions (snd (run_path runpy p s)) = actions s @ [Run_path p]"
  by (simp_all add: run_path_def case_prod_beta)

lemma sleep_simps [simp]:
  "self (snd (sleep d s)) = self s"
  "actions (snd (sleep d s)) = actions s @ [Sleep d]"
  "argv (proc (snd (sleep d s))) = argv (proc s)"
  "heap (proc (snd (sleep d s))) = heap (proc s)"
  "importer (proc (snd (sleep d s))) = importer (proc s)"
  by (simp_all add: sleep_def split: pyfloat.splits option.splits)

lemma sleep_returns:
  "fst (sleep d s) = Inr () \<longleftrightarrow> (\<exists>r. d = Finite r \<and> sleep_raises (proc s) r = None)"
  by (auto simp: sleep_def split: pyfloat.splits option.splits)

lemma sleep_clock:
  "fst (sleep (Finite r) s) = Inr () \<Longrightarrow> clock (proc (snd (sleep (Finite r) s))) = clock (proc s) + r"
  by (auto simp: sleep_def split: option.splits)

lemma prepared_simps [simp]:
  "self (prepared p a s) = self s"
  "proc (prepared p a s) = (proc s)\<lparr>argv := p # (if a \<noteq> [] then py_split a else [])\<rparr>"
  "actions (prepared p a s) =
     actions s @ [Print (Sealed_targets (length (targets (self s)))), Print (Run_begin p)]"
  by (simp_all add: prepared_def Let_def)

lemma pre_scan_actions:
  "actions (snd (pre_scan H p a s)) =
     actions s @ [Print (Sealed_targets (length (targets (self s)))), Print (Run_begin p)]
       @ (if positive (interval (self s)) then [Scan] else [])"
  by (simp add: pre_scan_def do_scan_actions)

lemma handed_fields [simp]:
  "interval (self (handed H p a s)) = interval (self s)"
  "targets (self (handed H p a s)) = targets (self s)"
  "auto_restore (self (handed H p a s)) = auto_restore (self s)"
  "clock (proc (handed H p a s)) = clock (proc s)"
  by (simp_all add: handed_def pre_scan_def)


lemma launched_simps [simp]:
  "self (launched H runpy p a s) = self (handed H p a s)"
  "actions (launched H runpy p a s) = actions (handed H p a s) @ [Run_path p]"
  "proc (launched H runpy p a s) = snd (runpy p (proc (handed H p a s)))"
  by (simp_all add: launched_def)

lemma after_program_fields [simp]:
  "interval (self (snd (after_program H s))) = interval (self s)"
  "targets (self (snd (after_program H s))) = targets (self s)"
  "auto_restore (self (snd (after_program H s))) = auto_restore (self s)"
  by (simp_all add: after_program_def then_do_eq)


lemma after_program_actions:
  "actions (snd (after_program H s)) =
     actions s @
       (if positive (interval (self s))
        then Sleep (interval (self s))
               # (if fst (sleep (interval (self s)) s) = Inr () then [Scan] else [])
        else [Scan])"
  by (simp add: after_program_def then_do_eq do_scan_actions)

text \<open>
  The body of the \<^verbatim>\<open>try\<close> in three steps: the scan before the program, the program,
  and what follows the program.
\<close>

lemma run_try_eq:
  "run_try H runpy p (s\<lparr>proc := (proc s)\<lparr>argv := p # (if a \<noteq> [] then py_split a else [])\<rparr>\<rparr>) =
     then_do (pre_scan H p a s) (\<lambda>s3.
     then_do (run_path runpy p s3) (\<lambda>s4.
     then_do (after_program H s4) (\<lambda>s6. (Inr (), act (Print Run_end_ok) s6))))"
  by (simp add: run_try_def pre_scan_def prepared_def after_program_def Let_def then_do_eq)

lemma run_eq:
  "run H runpy p a s =
     (case run_except
             (fst (run_try H runpy p
                (s\<lparr>proc := (proc s)\<lparr>argv := p # (if a \<noteq> [] then py_split a else [])\<rparr>\<rparr>)))
             (snd (run_try H runpy p
                (s\<lparr>proc := (proc s)\<lparr>argv := p # (if a \<noteq> [] then py_split a else [])\<rparr>\<rparr>))) of
        (res, s2) \<Rightarrow> (res, run_finally (argv (proc s)) (clock (proc s)) s2))"
  by (simp add: run_def Let_def case_prod_beta)

text \<open>How the body of the \<^verbatim>\<open>try\<close> ends, by its three steps.\<close>

lemma run_try_pre_raises:
  "fst (pre_scan H p a s) = Inl e \<Longrightarrow>
     run_try H runpy p (s\<lparr>proc := (proc s)\<lparr>argv := p # (if a \<noteq> [] then py_split a else [])\<rparr>\<rparr>)
       = (Inl e, handed H p a s)"
  by (simp add: run_try_eq then_do_eq handed_def prod_eq_iff)

lemma run_try_program_raises:
  "fst (pre_scan H p a s) = Inr () \<Longrightarrow> ends H runpy p a s = Some e \<Longrightarrow>
     run_try H runpy p (s\<lparr>proc := (proc s)\<lparr>argv := p # (if a \<noteq> [] then py_split a else [])\<rparr>\<rparr>)
       = (Inl e, launched H runpy p a s)"
  by (simp add: run_try_eq then_do_eq handed_def launched_def ends_def prod_eq_iff)

lemma run_try_after_raises:
  "fst (pre_scan H p a s) = Inr () \<Longrightarrow> ends H runpy p a s = None \<Longrightarrow>
   fst (after_program H (launched H runpy p a s)) = Inl e \<Longrightarrow>
     run_try H runpy p (s\<lparr>proc := (proc s)\<lparr>argv := p # (if a \<noteq> [] then py_split a else [])\<rparr>\<rparr>)
       = (Inl e, snd (after_program H (launched H runpy p a s)))"
  by (simp add: run_try_eq then_do_eq handed_def launched_def ends_def prod_eq_iff)

lemma run_try_returns:
  "fst (pre_scan H p a s) = Inr () \<Longrightarrow> ends H runpy p a s = None \<Longrightarrow>
   fst (after_program H (launched H runpy p a s)) = Inr () \<Longrightarrow>
     run_try H runpy p (s\<lparr>proc := (proc s)\<lparr>argv := p # (if a \<noteq> [] then py_split a else [])\<rparr>\<rparr>)
       = (Inr (), act (Print Run_end_ok) (snd (after_program H (launched H runpy p a s))))"
  by (simp add: run_try_eq then_do_eq handed_def launched_def ends_def prod_eq_iff)

subsection \<open>The report, the argument vector and the scan after the program\<close>




lemma run_except_simps [simp]:
  "targets (self (snd (run_except r s))) = targets (self s)"
  "auto_restore (self (snd (run_except r s))) = auto_restore (self s)"
  "proc (snd (run_except r s)) = proc s"
  by (simp_all add: run_except_def split: sum.splits pyexn.splits)



lemma run_finally_actions:
  "actions (run_finally old start s) =
     actions s
       @ [Json_dump ''patchtrap_report.json''
            \<lparr>duration_sec = round3 (clock (proc s) - start),
               report_auto_restore = auto_restore (self s),
               report_targets = targets (self s), report_alerts = alerts (self s)\<rparr> 2 True,
          Print Report_saved]"
  by (simp add: run_finally_def Let_def)

lemma run_finally_fields:
  "report (self (run_finally old start s)) =
     Some \<lparr>duration_sec = round3 (clock (proc s) - start),
            report_auto_restore = auto_restore (self s),
            report_targets = targets (self s), report_alerts = alerts (self s)\<rparr>"
  "alerts (self (run_finally old start s)) = alerts (self s)"
  "clock (proc (run_finally old start s)) = clock (proc s)"
  "heap (proc (run_finally old start s)) = heap (proc s)"
  "importer (proc (run_finally old start s)) = importer (proc s)"
  "argv (proc (run_finally old start s)) = old"
  by (simp_all add: run_finally_def Let_def)


lemma run_snd:
  "snd (run H runpy p a s) =
     run_finally (argv (proc s)) (clock (proc s))
       (snd (run_except
          (fst (run_try H runpy p
             (s\<lparr>proc := (proc s)\<lparr>argv := p # (if a \<noteq> [] then py_split a else [])\<rparr>\<rparr>)))
          (snd (run_try H runpy p
             (s\<lparr>proc := (proc s)\<lparr>argv := p # (if a \<noteq> [] then py_split a else [])\<rparr>\<rparr>)))))"
  by (simp add: run_eq case_prod_beta)





text \<open>
  C10. After \<^verbatim>\<open>run\<close>, \<^verbatim>\<open>sys.argv\<close> has the value it had before the call, whatever
  the guarded program did to it and however the body of the \<^verbatim>\<open>try\<close> ended: by
  reaching its last line, by \<^verbatim>\<open>SystemExit\<close> (also one whose code makes the handler
  itself raise), by an exception of the program, of a scan or of \<^verbatim>\<open>time.sleep\<close>, or
  by any other \<^verbatim>\<open>BaseException\<close>, which leaves \<^verbatim>\<open>run\<close>.
\<close>

theorem run_restores_argv:
  "argv (proc (snd (run H runpy target_path args_line s))) = argv (proc s)"
  by (simp add: run_def Let_def run_finally_fields split: prod.splits)

theorem run_restores_argv_witness:
  "argv (proc (snd (run id (\<lambda>p w. (Some runtime_error, w\<lparr>argv := [''hijacked'']\<rparr>))
      ''script.py'' ''-v'' (state_ex True (Finite 0) [''m.f''])))) = [''patchtrap.py'', ''run'', ''script.py'']"
  using run_restores_argv [of id "\<lambda>p w. (Some runtime_error, w\<lparr>argv := [''hijacked'']\<rparr>)"
      "''script.py''" "''-v''" "state_ex True (Finite 0) [''m.f'']"]
  by (simp add: state_ex_def world_ex_def)




text \<open>
  C2 (the code departs from the claim). The guarded program rebinds \<^verbatim>\<open>m.f\<close> and then
  raises \<^verbatim>\<open>SystemExit(0)\<close>, or raises an exception: the call of \<^verbatim>\<open>_scan_once\<close>
  that follows \<^verbatim>\<open>runpy.run_path\<close> inside the \<^verbatim>\<open>try\<close> is skipped, so no scan is
  made after the program, the report has no \<^verbatim>\<open>replaced\<close> alert and \<^verbatim>\<open>m.f\<close> stays
  rebound.
\<close>

theorem run_no_scan_after_exit:
  "actions (snd (run id (\<lambda>p w. (Some (SystemExit (Code_int 0)), patch_f w)) ''script.py'' []
      (state_ex True (Finite 0) [''m.f''])))
     = [Print (Sealed_targets 1), Print (Run_begin ''script.py''), Run_path ''script.py'',
        Print (Run_end_SystemExit 0),
        Json_dump ''patchtrap_report.json''
          \<lparr>duration_sec = 0, report_auto_restore = True, report_targets = [''m.f''],
             report_alerts = []\<rparr> 2 True,
        Print Report_saved]
   \<and> getattr (proc (snd (run id (\<lambda>p w. (Some (SystemExit (Code_int 0)), patch_f w)) ''script.py'' []
         (state_ex True (Finite 0) [''m.f'']))))  0 ''f'' = Inr 2
   \<and> actions (snd (run id (\<lambda>p w. (Some runtime_error, patch_f w)) ''script.py'' []
      (state_ex True (Finite 0) [''m.f''])))
     = [Print (Sealed_targets 1), Print (Run_begin ''script.py''), Run_path ''script.py'',
        Print Run_end_exception,
        Json_dump ''patchtrap_report.json''
          \<lparr>duration_sec = 0, report_auto_restore = True, report_targets = [''m.f''],
             report_alerts = [Exception ''RuntimeError()'']\<rparr> 2 True,
        Print Report_saved]"
  by code_simp

subsection \<open>The exit status\<close>


lemma run_except_prints: "\<exists>pr. actions (snd (run_except r s)) = actions s @ map Print pr"
proof (cases r)
  case (Inl e)
  show ?thesis
  proof (cases e)
    case (SystemExit c)
    show ?thesis
    proof (cases "exit_status c")
      case (Inl e')
      then have "actions (snd (run_except r s)) = actions s @ map Print []"
        using \<open>r = Inl e\<close> SystemExit by (simp add: run_except_def)
      then show ?thesis by blast
    next
      case (Inr rc)
      then have "actions (snd (run_except r s)) = actions s @ map Print [Run_end_SystemExit rc]"
        using \<open>r = Inl e\<close> SystemExit by (simp add: run_except_def)
      then show ?thesis by blast
    qed
  next
    case (Raised cls rp)
    show ?thesis
    proof (cases "except_repr (Raised cls rp)")
      case (Inl e')
      then have "actions (snd (run_except r s)) = actions s @ map Print []"
        using \<open>r = Inl e\<close> Raised by (simp add: run_except_def)
      then show ?thesis by blast
    next
      case (Inr tx)
      then have "actions (snd (run_except r s)) = actions s @ map Print [Run_end_exception]"
        using \<open>r = Inl e\<close> Raised by (simp add: run_except_def)
      then show ?thesis by blast
    qed
  qed
next
  case (Inr u)
  then have "actions (snd (run_except r s)) = actions s @ map Print []"
    by (simp add: run_except_def)
  then show ?thesis by blast
qed

text \<open>What \<^verbatim>\<open>run\<close> does after the body of the \<^verbatim>\<open>try\<close>: console lines and the report.\<close>

lemma run_tail:
  "\<exists>pr rep. actions (snd (run H runpy p a s)) =
     actions (snd (run_try H runpy p
        (s\<lparr>proc := (proc s)\<lparr>argv := p # (if a \<noteq> [] then py_split a else [])\<rparr>\<rparr>)))
       @ map Print pr @ [Json_dump ''patchtrap_report.json'' rep 2 True, Print Report_saved]"
proof -
  let ?t = "run_try H runpy p
             (s\<lparr>proc := (proc s)\<lparr>argv := p # (if a \<noteq> [] then py_split a else [])\<rparr>\<rparr>)"
  obtain pr where "actions (snd (run_except (fst ?t) (snd ?t))) = actions (snd ?t) @ map Print pr"
    using run_except_prints by blast
  then show ?thesis
    unfolding run_snd run_finally_actions by (intro exI [of _ pr]) simp
qed

lemma run_tail_returns:
  "fst (run_try H runpy p
        (s\<lparr>proc := (proc s)\<lparr>argv := p # (if a \<noteq> [] then py_split a else [])\<rparr>\<rparr>)) = Inr () \<Longrightarrow>
   \<exists>rep. actions (snd (run H runpy p a s)) =
     actions (snd (run_try H runpy p
        (s\<lparr>proc := (proc s)\<lparr>argv := p # (if a \<noteq> [] then py_split a else [])\<rparr>\<rparr>)))
       @ [Json_dump ''patchtrap_report.json'' rep 2 True, Print Report_saved]"
  unfolding run_snd run_finally_actions by (simp add: run_except_def)

lemma tail_no_scan:
  "Scan \<notin> set (map Print pr @ [Json_dump f rep i k, Print c])"
  by auto




subsection \<open>Checkpoints\<close>

lemma handed_no_interval:
  "\<not> positive (interval (self s)) \<Longrightarrow>
     pre_scan H p a s = (Inr (), prepared p a s)
     \<and> self (handed H p a s) = self s
     \<and> proc (handed H p a s) = (proc s)\<lparr>argv := p # (if a \<noteq> [] then py_split a else [])\<rparr>"
  by (simp add: handed_def pre_scan_def)

text \<open>The actions of the body of the \<^verbatim>\<open>try\<close>, by how its steps end.\<close>

lemma run_try_trace:
  "actions (snd (run_try H runpy p
      (s\<lparr>proc := (proc s)\<lparr>argv := p # (if a \<noteq> [] then py_split a else [])\<rparr>\<rparr>))) =
     actions s @ [Print (Sealed_targets (length (targets (self s)))), Print (Run_begin p)]
       @ (if positive (interval (self s)) then [Scan] else [])
       @ (if fst (pre_scan H p a s) = Inr () then
            Run_path p #
              (if ends H runpy p a s = None then
                 (if positive (interval (self s))
                  then Sleep (interval (self s))
                         # (if fst (sleep (interval (self s)) (launched H runpy p a s)) = Inr ()
                            then [Scan] else [])
                  else [Scan])
                 @ (if fst (after_program H (launched H runpy p a s)) = Inr ()
                    then [Print Run_end_ok] else [])
               else [])
          else [])"
proof -
  let ?h = "handed H p a s"
  let ?l = "launched H runpy p a s"
  have 1: "actions ?h = actions s @ [Print (Sealed_targets (length (targets (self s)))), Print (Run_begin p)]
       @ (if positive (interval (self s)) then [Scan] else [])"
    unfolding handed_def by (rule pre_scan_actions)
  have 2: "actions ?l = actions ?h @ [Run_path p]" by simp
  have 3: "actions (snd (after_program H ?l)) = actions ?l @
       (if positive (interval (self s))
        then Sleep (interval (self s))
               # (if fst (sleep (interval (self s)) ?l) = Inr () then [Scan] else [])
        else [Scan])"
    using after_program_actions [of H ?l] by simp
  show ?thesis
  proof (cases "fst (pre_scan H p a s)")
    case (Inl e)
    show ?thesis
      unfolding run_try_pre_raises [OF Inl] using 1 Inl by simp
  next
    case (Inr u)
    then have pre: "fst (pre_scan H p a s) = Inr ()" by simp
    show ?thesis
    proof (cases "ends H runpy p a s")
      case (Some e)
      show ?thesis
        unfolding run_try_program_raises [OF pre Some] using 1 2 pre Some by simp
    next
      case None
      show ?thesis
      proof (cases "fst (after_program H ?l)")
        case (Inl e)
        show ?thesis
          unfolding run_try_after_raises [OF pre None Inl] using 1 2 3 pre None Inl by simp
      next
        case (Inr u')
        then have af: "fst (after_program H ?l) = Inr ()" by simp
        show ?thesis
          unfolding run_try_returns [OF pre None af] using 1 2 3 pre None af by simp
      qed
    qed
  qed
qed

lemma run_try_result:
  "fst (run_try H runpy p
      (s\<lparr>proc := (proc s)\<lparr>argv := p # (if a \<noteq> [] then py_split a else [])\<rparr>\<rparr>)) = Inr ()
   \<longleftrightarrow> fst (pre_scan H p a s) = Inr () \<and> ends H runpy p a s = None
        \<and> fst (after_program H (launched H runpy p a s)) = Inr ()"
proof (cases "fst (pre_scan H p a s)")
  case (Inl e)
  show ?thesis unfolding run_try_pre_raises [OF Inl] using Inl by simp
next
  case (Inr u)
  then have pre: "fst (pre_scan H p a s) = Inr ()" by simp
  show ?thesis
  proof (cases "ends H runpy p a s")
    case (Some e)
    show ?thesis unfolding run_try_program_raises [OF pre Some] using Some by simp
  next
    case None
    show ?thesis
    proof (cases "fst (after_program H (launched H runpy p a s))")
      case (Inl e)
      show ?thesis unfolding run_try_after_raises [OF pre None Inl] using Inl by simp
    next
      case (Inr u')
      then have af: "fst (after_program H (launched H runpy p a s)) = Inr ()" by simp
      show ?thesis unfolding run_try_returns [OF pre None af] using pre None af by simp
    qed
  qed
qed

lemma after_program_returns:
  "fst (after_program H s) = Inr () \<Longrightarrow> positive (interval (self s)) \<Longrightarrow>
     fst (sleep (interval (self s)) s) = Inr ()"
  by (simp add: after_program_def then_do_eq split: if_splits)

text \<open>
  C3 (amended). With interval 0 (an interval that is not positive) the harness makes no
  scan before the guarded program: the program is started right after the two console
  lines, in the process as it was at the call of \<^verbatim>\<open>run\<close> with only \<^verbatim>\<open>sys.argv\<close>
  set, and when it returns exactly one scan follows. With a positive interval one scan
  is made before the program, which is started when that scan returns; when the program
  returns the harness calls \<^verbatim>\<open>time.sleep\<close> with the interval, and makes one more
  scan when that call returns, and none when it raises. When every step returns, the
  line \<^verbatim>\<open>status=ok\<close> and the report follow the last scan.
\<close>

theorem run_checkpoints:
  "(\<not> positive (interval (self s)) \<longrightarrow>
      self (handed H p a s) = self s
      \<and> proc (handed H p a s) = (proc s)\<lparr>argv := p # (if a \<noteq> [] then py_split a else [])\<rparr>
      \<and> (\<exists>rest. actions (snd (run H runpy p a s)) =
           actions s @ [Print (Sealed_targets (length (targets (self s)))), Print (Run_begin p),
                        Run_path p] @ rest)
      \<and> (ends H runpy p a s = None \<longrightarrow>
           (\<exists>rest. actions (snd (run H runpy p a s)) =
              actions s @ [Print (Sealed_targets (length (targets (self s)))), Print (Run_begin p),
                           Run_path p, Scan] @ rest
              \<and> Scan \<notin> set rest))
      \<and> (ends H runpy p a s = None \<and> fst (after_program H (launched H runpy p a s)) = Inr () \<longrightarrow>
           (\<exists>rep. actions (snd (run H runpy p a s)) =
              actions s @ [Print (Sealed_targets (length (targets (self s)))), Print (Run_begin p),
                           Run_path p, Scan, Print Run_end_ok,
                           Json_dump ''patchtrap_report.json'' rep 2 True, Print Report_saved])))
   \<and> (positive (interval (self s)) \<longrightarrow>
        (\<exists>rest. actions (snd (run H runpy p a s)) =
           actions s @ [Print (Sealed_targets (length (targets (self s)))), Print (Run_begin p),
                        Scan] @ rest)
        \<and> (fst (pre_scan H p a s) = Inr () \<longrightarrow>
             (\<exists>rest. actions (snd (run H runpy p a s)) =
                actions s @ [Print (Sealed_targets (length (targets (self s)))), Print (Run_begin p),
                             Scan, Run_path p] @ rest))
        \<and> (fst (pre_scan H p a s) = Inr () \<and> ends H runpy p a s = None
             \<and> fst (sleep (interval (self s)) (launched H runpy p a s)) = Inr () \<longrightarrow>
             (\<exists>rest. actions (snd (run H runpy p a s)) =
                actions s @ [Print (Sealed_targets (length (targets (self s)))), Print (Run_begin p),
                             Scan, Run_path p, Sleep (interval (self s)), Scan] @ rest
                \<and> Scan \<notin> set rest))
        \<and> (fst (pre_scan H p a s) = Inr () \<and> ends H runpy p a s = None
             \<and> fst (sleep (interval (self s)) (launched H runpy p a s)) \<noteq> Inr () \<longrightarrow>
             (\<exists>rest. actions (snd (run H runpy p a s)) =
                actions s @ [Print (Sealed_targets (length (targets (self s)))), Print (Run_begin p),
                             Scan, Run_path p, Sleep (interval (self s))] @ rest
                \<and> Scan \<notin> set rest))
        \<and> (fst (pre_scan H p a s) = Inr () \<and> ends H runpy p a s = None
             \<and> fst (after_program H (launched H runpy p a s)) = Inr () \<longrightarrow>
             (\<exists>rep. actions (snd (run H runpy p a s)) =
                actions s @ [Print (Sealed_targets (length (targets (self s)))), Print (Run_begin p),
                             Scan, Run_path p, Sleep (interval (self s)), Scan, Print Run_end_ok,
                             Json_dump ''patchtrap_report.json'' rep 2 True, Print Report_saved])))"
proof -
  let ?t = "run_try H runpy p
      (s\<lparr>proc := (proc s)\<lparr>argv := p # (if a \<noteq> [] then py_split a else [])\<rparr>\<rparr>)"
  let ?f = "actions (snd (run H runpy p a s))"
  let ?l = "launched H runpy p a s"
  let ?P = "[Print (Sealed_targets (length (targets (self s)))), Print (Run_begin p)]"
  obtain pr rep where tail:
    "?f = actions (snd ?t) @ map Print pr @ [Json_dump ''patchtrap_report.json'' rep 2 True, Print Report_saved]"
    using run_tail by blast
  let ?tail = "map Print pr @ [Json_dump ''patchtrap_report.json'' rep 2 True, Print Report_saved]"
  have ns: "Scan \<notin> set ?tail" by (rule tail_no_scan)
  have full: "fst ?t = Inr () \<Longrightarrow>
     \<exists>rep. ?f = actions (snd ?t) @ [Json_dump ''patchtrap_report.json'' rep 2 True, Print Report_saved]"
    by (rule run_tail_returns)
  show ?thesis
  proof (cases "positive (interval (self s))")
    case False
    have pre: "fst (pre_scan H p a s) = Inr ()" using handed_no_interval [OF False] by simp
    have a1: "\<exists>rest. ?f = actions s @ (?P @ [Run_path p]) @ rest"
      unfolding tail run_try_trace using False pre by simp
    have a2: "\<exists>rest. ?f = actions s @ (?P @ [Run_path p, Scan]) @ rest \<and> Scan \<notin> set rest"
      if e: "ends H runpy p a s = None"
    proof (cases "fst (after_program H ?l) = Inr ()")
      case True
      have "?f = actions s @ (?P @ [Run_path p, Scan]) @ (Print Run_end_ok # ?tail)"
        unfolding tail run_try_trace using False pre e True by simp
      moreover have "Scan \<notin> set (Print Run_end_ok # ?tail)" using ns by simp
      ultimately show ?thesis by blast
    next
      case F: False
      have "?f = actions s @ (?P @ [Run_path p, Scan]) @ ?tail"
        unfolding tail run_try_trace using False pre e F by simp
      then show ?thesis using ns by blast
    qed
    have a3: "\<exists>rep. ?f = actions s @ ?P @ [Run_path p, Scan, Print Run_end_ok,
                 Json_dump ''patchtrap_report.json'' rep 2 True, Print Report_saved]"
      if e: "ends H runpy p a s = None" and af: "fst (after_program H ?l) = Inr ()"
    proof -
      have "fst ?t = Inr ()" using pre e af by (simp add: run_try_result)
      from full [OF this] obtain rep' where
        "?f = actions (snd ?t) @ [Json_dump ''patchtrap_report.json'' rep' 2 True, Print Report_saved]"
        by blast
      then have "?f = actions s @ ?P @ [Run_path p, Scan, Print Run_end_ok,
                 Json_dump ''patchtrap_report.json'' rep' 2 True, Print Report_saved]"
        unfolding run_try_trace using False pre e af by simp
      then show ?thesis by blast
    qed
    show ?thesis
      using False handed_no_interval [OF False, of H p a] a1 a2 a3 by simp
  next
    case True
    have b1: "\<exists>rest. ?f = actions s @ (?P @ [Scan]) @ rest"
      unfolding tail run_try_trace using True by simp
    have b2: "\<exists>rest. ?f = actions s @ (?P @ [Scan, Run_path p]) @ rest"
      if pre: "fst (pre_scan H p a s) = Inr ()"
      unfolding tail run_try_trace using True pre by simp
    have b3: "\<exists>rest. ?f = actions s @ (?P @ [Scan, Run_path p, Sleep (interval (self s)), Scan]) @ rest
                \<and> Scan \<notin> set rest"
      if pre: "fst (pre_scan H p a s) = Inr ()" and e: "ends H runpy p a s = None"
        and sl: "fst (sleep (interval (self s)) ?l) = Inr ()"
    proof (cases "fst (after_program H ?l) = Inr ()")
      case T: True
      have "?f = actions s @ (?P @ [Scan, Run_path p, Sleep (interval (self s)), Scan])
                   @ (Print Run_end_ok # ?tail)"
        unfolding tail run_try_trace using True pre e sl T by simp
      moreover have "Scan \<notin> set (Print Run_end_ok # ?tail)" using ns by simp
      ultimately show ?thesis by blast
    next
      case F: False
      have "?f = actions s @ (?P @ [Scan, Run_path p, Sleep (interval (self s)), Scan]) @ ?tail"
        unfolding tail run_try_trace using True pre e sl F by simp
      then show ?thesis using ns by blast
    qed
    have b4: "\<exists>rest. ?f = actions s @ (?P @ [Scan, Run_path p, Sleep (interval (self s))]) @ rest
                \<and> Scan \<notin> set rest"
      if pre: "fst (pre_scan H p a s) = Inr ()" and e: "ends H runpy p a s = None"
        and sl: "fst (sleep (interval (self s)) ?l) \<noteq> Inr ()"
    proof -
      have F: "fst (after_program H ?l) \<noteq> Inr ()"
        using after_program_returns [of H ?l] True sl by auto
      have "?f = actions s @ (?P @ [Scan, Run_path p, Sleep (interval (self s))]) @ ?tail"
        unfolding tail run_try_trace using True pre e sl F by simp
      then show ?thesis using ns by blast
    qed
    have b5: "\<exists>rep. ?f = actions s @ ?P @ [Scan, Run_path p, Sleep (interval (self s)), Scan,
                 Print Run_end_ok, Json_dump ''patchtrap_report.json'' rep 2 True, Print Report_saved]"
      if pre: "fst (pre_scan H p a s) = Inr ()" and e: "ends H runpy p a s = None"
        and af: "fst (after_program H ?l) = Inr ()"
    proof -
      have sl: "fst (sleep (interval (self s)) ?l) = Inr ()"
        using after_program_returns [of H ?l] True af by simp
      have "fst ?t = Inr ()" using pre e af by (simp add: run_try_result)
      from full [OF this] obtain rep' where
        "?f = actions (snd ?t) @ [Json_dump ''patchtrap_report.json'' rep' 2 True, Print Report_saved]"
        by blast
      then have "?f = actions s @ ?P @ [Scan, Run_path p, Sleep (interval (self s)), Scan,
                 Print Run_end_ok, Json_dump ''patchtrap_report.json'' rep' 2 True, Print Report_saved]"
        unfolding run_try_trace using True pre e af sl by simp
      then show ?thesis by blast
    qed
    show ?thesis
      using True b1 b2 b3 b4 b5 by simp
  qed
qed

theorem run_checkpoints_witness:
  "\<not> positive (interval (self (state_ex True (Finite 0) [''m.f''])))
   \<and> ends id (\<lambda>p w. (None, patch_f w)) ''script.py'' [] (state_ex True (Finite 0) [''m.f'']) = None
   \<and> fst (after_program id (launched id (\<lambda>p w. (None, patch_f w)) ''script.py'' []
             (state_ex True (Finite 0) [''m.f'']))) = Inr ()
   \<and> (\<exists>rep. actions (snd (run id (\<lambda>p w. (None, patch_f w)) ''script.py'' []
                (state_ex True (Finite 0) [''m.f'']))) =
           [Print (Sealed_targets 1), Print (Run_begin ''script.py''), Run_path ''script.py'', Scan,
            Print Run_end_ok, Json_dump ''patchtrap_report.json'' rep 2 True, Print Report_saved])
   \<and> positive (interval (self (state_ex True (Finite 2) [''m.f''])))
   \<and> fst (pre_scan id ''script.py'' [] (state_ex True (Finite 2) [''m.f''])) = Inr ()
   \<and> ends id (\<lambda>p w. (None, patch_f w)) ''script.py'' [] (state_ex True (Finite 2) [''m.f'']) = None
   \<and> fst (after_program id (launched id (\<lambda>p w. (None, patch_f w)) ''script.py'' []
             (state_ex True (Finite 2) [''m.f'']))) = Inr ()
   \<and> (\<exists>rep. actions (snd (run id (\<lambda>p w. (None, patch_f w)) ''script.py'' []
                (state_ex True (Finite 2) [''m.f'']))) =
           [Print (Sealed_targets 1), Print (Run_begin ''script.py''), Scan, Run_path ''script.py'',
            Sleep (Finite 2), Scan, Print Run_end_ok,
            Json_dump ''patchtrap_report.json'' rep 2 True, Print Report_saved])
   \<and> positive (interval (self (state_ex True (Finite 10000000000) [''m.f''])))
   \<and> fst (pre_scan id ''script.py'' [] (state_ex True (Finite 10000000000) [''m.f''])) = Inr ()
   \<and> ends id (\<lambda>p w. (None, patch_f w)) ''script.py'' []
        (state_ex True (Finite 10000000000) [''m.f'']) = None
   \<and> fst (sleep (Finite 10000000000) (launched id (\<lambda>p w. (None, patch_f w)) ''script.py'' []
             (state_ex True (Finite 10000000000) [''m.f'']))) \<noteq> Inr ()
   \<and> (\<exists>rest. actions (snd (run id (\<lambda>p w. (None, patch_f w)) ''script.py'' []
                (state_ex True (Finite 10000000000) [''m.f'']))) =
           [Print (Sealed_targets 1), Print (Run_begin ''script.py''), Scan, Run_path ''script.py'',
            Sleep (Finite 10000000000)] @ rest
         \<and> Scan \<notin> set rest)"
proof -
  let ?prog = "\<lambda>p w. (None, patch_f w)"
  let ?s0 = "state_ex True (Finite 0) [''m.f'']"
  let ?s2 = "state_ex True (Finite 2) [''m.f'']"
  let ?s3 = "state_ex True (Finite 10000000000) [''m.f'']"
  have i0: "interval (self ?s0) = Finite 0" by code_simp
  have i2: "interval (self ?s2) = Finite 2" by code_simp
  have i3: "interval (self ?s3) = Finite 10000000000" by code_simp
  have e0: "ends id ?prog ''script.py'' [] ?s0 = None" by (simp add: ends_def)
  have e2: "ends id ?prog ''script.py'' [] ?s2 = None" by (simp add: ends_def)
  have e3: "ends id ?prog ''script.py'' [] ?s3 = None" by (simp add: ends_def)
  have a0: "actions ?s0 = []" "actions ?s2 = []" "actions ?s3 = []" by (simp_all add: state_ex_def)
  have n: "length (targets (self ?s0)) = 1" "length (targets (self ?s2)) = 1"
      "length (targets (self ?s3)) = 1" by code_simp+
  have af0: "fst (after_program id (launched id ?prog ''script.py'' [] ?s0)) = Inr ()" by code_simp
  have af2: "fst (after_program id (launched id ?prog ''script.py'' [] ?s2)) = Inr ()" by code_simp
  have p2: "fst (pre_scan id ''script.py'' [] ?s2) = Inr ()" by code_simp
  have p3: "fst (pre_scan id ''script.py'' [] ?s3) = Inr ()" by code_simp
  have sl3: "fst (sleep (Finite 10000000000) (launched id ?prog ''script.py'' [] ?s3)) \<noteq> Inr ()"
    by code_simp
  show ?thesis
    using run_checkpoints [of ?s0 id "''script.py''" "[]" ?prog]
          run_checkpoints [of ?s2 id "''script.py''" "[]" ?prog]
          run_checkpoints [of ?s3 id "''script.py''" "[]" ?prog]
    by (simp add: i0 i2 i3 e0 e2 e3 a0 n af0 af2 p2 p3 sl3)
qed

text \<open>
  The claim as stated fails at interval 0: the harness starts the guarded program right
  after its two console lines, and the only scan is the one after the program.
\<close>

theorem run_checkpoints_counterexample:
  "interval (self (state_ex True (Finite 0) [''m.f''])) = Finite 0
   \<and> actions (snd (run id (\<lambda>p w. (None, w)) ''script.py'' [] (state_ex True (Finite 0) [''m.f'']))) =
       [Print (Sealed_targets 1), Print (Run_begin ''script.py''), Run_path ''script.py'', Scan,
        Print Run_end_ok,
        Json_dump ''patchtrap_report.json''
          \<lparr>duration_sec = 0, report_auto_restore = True, report_targets = [''m.f''],
             report_alerts = []\<rparr> 2 True,
        Print Report_saved]"
  by code_simp

subsection \<open>The environment alert\<close>




























subsection \<open>Fingerprints and categories\<close>

lemma fp_hash_hashed:
  "fingerprint_callable H obj = Inr f \<Longrightarrow> \<exists>b. hashed obj = Inr b \<and> fp_hash f = H b"
  by (auto simp: fingerprint_callable_def hashed_def sha256_bytes_def Let_def
        split: sum.splits prod.splits)

lemma hashed_fingerprint:
  "hashed obj = Inr b \<Longrightarrow> \<exists>f. fingerprint_callable H obj = Inr f \<and> fp_hash f = H b"
  by (auto simp: fingerprint_callable_def hashed_def sha256_bytes_def Let_def
        split: sum.splits prod.splits)

lemma hashed_non_callable:
  "category obj = Non_callable \<Longrightarrow> hashed obj = Inr b \<Longrightarrow> \<exists>r. b = ''not-callable:'' @ r"
  by (auto simp: category_def hashed_def fingerprint_try_def Let_def
        split: sum.splits if_splits)

lemma hashed_error:
  "category obj = Fingerprint_error \<Longrightarrow> hashed obj = Inr b \<Longrightarrow> \<exists>r. b = ''error:'' @ r"
  by (auto simp: category_def hashed_def split: sum.splits if_splits)

lemma non_callable_error_differ:
  "category v1 = Non_callable \<Longrightarrow> category v2 = Fingerprint_error \<Longrightarrow>
     hashed v1 = Inr b1 \<Longrightarrow> hashed v2 = Inr b2 \<Longrightarrow> b1 \<noteq> b2"
  using hashed_non_callable [of v1 b1] hashed_error [of v2 b2] by auto

text \<open>
  C9 (amended). For two values that get a fingerprint: the hash of a fingerprint is
  SHA-256 of the byte string of the value's category, so the hashes of the two values are
  equal exactly when SHA-256 gives the same digest for their byte strings. The byte
  strings of a non-callable value and of a value whose fingerprinting failed always
  differ (they begin \<^verbatim>\<open>not-callable:\<close> and \<^verbatim>\<open>error:\<close>), so for this pair of
  categories the hashes differ unless SHA-256 collides on the two strings. For other
  pairs of categories the byte strings can be equal, and then so are the hashes.
\<close>

theorem fingerprint_hash_by_category:
  "fingerprint_callable H v1 = Inr f1 \<and> fingerprint_callable H v2 = Inr f2 \<longrightarrow>
     (\<exists>b1 b2. hashed v1 = Inr b1 \<and> hashed v2 = Inr b2
        \<and> (fp_hash f1 = fp_hash f2) = (H b1 = H b2)
        \<and> (category v1 = Non_callable \<and> category v2 = Fingerprint_error \<longrightarrow> b1 \<noteq> b2)
        \<and> (category v1 = Non_callable \<and> category v2 = Fingerprint_error
             \<and> (H b1 = H b2 \<longrightarrow> b1 = b2)
             \<longrightarrow> fp_hash f1 \<noteq> fp_hash f2))"
proof
  assume a: "fingerprint_callable H v1 = Inr f1 \<and> fingerprint_callable H v2 = Inr f2"
  obtain b1 where b1: "hashed v1 = Inr b1" "fp_hash f1 = H b1"
    using fp_hash_hashed [of H v1 f1] a by blast
  obtain b2 where b2: "hashed v2 = Inr b2" "fp_hash f2 = H b2"
    using fp_hash_hashed [of H v2 f2] a by blast
  have d: "category v1 = Non_callable \<and> category v2 = Fingerprint_error \<longrightarrow> b1 \<noteq> b2"
    using non_callable_error_differ [of v1 v2 b1 b2] b1(1) b2(1) by blast
  show "\<exists>b1 b2. hashed v1 = Inr b1 \<and> hashed v2 = Inr b2
        \<and> (fp_hash f1 = fp_hash f2) = (H b1 = H b2)
        \<and> (category v1 = Non_callable \<and> category v2 = Fingerprint_error \<longrightarrow> b1 \<noteq> b2)
        \<and> (category v1 = Non_callable \<and> category v2 = Fingerprint_error
             \<and> (H b1 = H b2 \<longrightarrow> b1 = b2)
             \<longrightarrow> fp_hash f1 \<noteq> fp_hash f2)"
    apply (rule exI [of _ b1])
    apply (rule exI [of _ b2])
    using b1 b2 d by auto
qed

theorem fingerprint_hash_by_category_witness:
  "category blank = Non_callable \<and> category bad_repr = Fingerprint_error
   \<and> fingerprint_callable id blank
       = Inr \<lparr>fp_type = ''object'', fp_hash = ''not-callable:<object>'',
               fp_where = ''not-callable:<object>''\<rparr>
   \<and> fingerprint_callable id bad_repr
       = Inr \<lparr>fp_type = ''object'', fp_hash = ''error:object:RuntimeError()'',
               fp_where = ''error:object:RuntimeError()''\<rparr>
   \<and> hashed blank = Inr ''not-callable:<object>''
   \<and> hashed bad_repr = Inr ''error:object:RuntimeError()''
   \<and> ''not-callable:<object>'' \<noteq> ''error:object:RuntimeError()''"
proof -
  have c1: "category blank = Non_callable" by code_simp
  have c2: "category bad_repr = Fingerprint_error" by code_simp
  have f1: "fingerprint_callable id blank
       = Inr \<lparr>fp_type = ''object'', fp_hash = ''not-callable:<object>'',
               fp_where = ''not-callable:<object>''\<rparr>" by code_simp
  have f2: "fingerprint_callable id bad_repr
       = Inr \<lparr>fp_type = ''object'', fp_hash = ''error:object:RuntimeError()'',
               fp_where = ''error:object:RuntimeError()''\<rparr>" by code_simp
  have h1: "hashed blank = Inr ''not-callable:<object>''" by code_simp
  have h2: "hashed bad_repr = Inr ''error:object:RuntimeError()''" by code_simp
  show ?thesis
    using fingerprint_hash_by_category [of id blank
        "\<lparr>fp_type = ''object'', fp_hash = ''not-callable:<object>'',
               fp_where = ''not-callable:<object>''\<rparr>" bad_repr
        "\<lparr>fp_type = ''object'', fp_hash = ''error:object:RuntimeError()'',
               fp_where = ''error:object:RuntimeError()''\<rparr>"] c1 c2 f1 f2 h1 h2
    by simp
qed

text \<open>
  The claim as stated fails for a builtin function and a callable instance that have the
  same tag: their categories differ, both get a fingerprint, and the hashes are equal,
  whatever the hash function.
\<close>

theorem fingerprint_hash_by_category_counterexample:
  "category builtin_f = Opaque_native \<and> category callable_mod = Generic_callable
   \<and> (\<forall>H. \<exists>f1 f2. fingerprint_callable H builtin_f = Inr f1
               \<and> fingerprint_callable H callable_mod = Inr f2
               \<and> fp_hash f1 = H ''pkg.mod:f:<built-in function f>''
               \<and> fp_hash f2 = H ''pkg.mod:f:<built-in function f>'')"
proof -
  have c1: "category builtin_f = Opaque_native" by code_simp
  have c2: "category callable_mod = Generic_callable" by code_simp
  have h1: "hashed builtin_f = Inr ''pkg.mod:f:<built-in function f>''" by code_simp
  have h2: "hashed callable_mod = Inr ''pkg.mod:f:<built-in function f>''" by code_simp
  show ?thesis
    using c1 c2 hashed_fingerprint [OF h1] hashed_fingerprint [OF h2] by blast
qed

subsection \<open>Sealing the baseline\<close>





lemma seal_loop_targets: "targets (snd (seal_loop H w ds g)) = targets g"
  by (induction ds arbitrary: g) (auto simp: Let_def split: sum.splits)








subsection \<open>Tamper detection\<close>

lemma scan_targets_append:
  "scan_targets H (xs @ ys) gw =
     (if fst (scan_targets H xs gw) = Inr ()
      then scan_targets H ys (snd (scan_targets H xs gw))
      else scan_targets H xs gw)"
proof (induction xs arbitrary: gw)
  case Nil
  show ?case by simp
next
  case (Cons x xs)
  show ?case
    unfolding append_Cons scan_targets_step [of H x] using Cons.IH by simp
qed

lemma scan_targets_baseline:
  "baseline (fst (snd (scan_targets H ds gw))) = baseline (fst gw)"
  "originals (fst (snd (scan_targets H ds gw))) = originals (fst gw)"
  "auto_restore (fst (snd (scan_targets H ds gw))) = auto_restore (fst gw)"
  by (subst scan_targets_guard, simp)+

lemma scan_target_replaced:
  assumes "baseline g d = Some base"
    and "resolve_dotted w d = Inr (c, v, cq, a)"
    and "fingerprint_callable H (heap w v) = Inr fp_now"
    and "fp_hash fp_now \<noteq> fp_hash (fp base)"
  shows "\<exists>rest. alerts (fst (snd (scan_target H d (g, w))))
                  = alerts g @ Replaced d (fp base) fp_now # rest
               \<and> (\<forall>x\<in>set rest. is_restore x)"
  using assms
  by (simp add: scan_target_def Let_def split: sum.splits option.splits)

text \<open>The alerts of the loop over the targets from one target on.\<close>

lemma scan_targets_from:
  "\<exists>n. alerts (fst (snd (scan_targets H (d # post) gw)))
          = alerts (fst (snd (scan_target H d gw))) @ n
       \<and> (\<forall>x\<in>set n. \<exists>d'\<in>set post. alert_target x = Some d')"
proof (cases "fst (scan_target H d gw) = Inr ()")
  case True
  then show ?thesis
    using scan_targets_new [of H post "snd (scan_target H d gw)"]
    by (simp add: scan_targets_step del: scan_targets.simps)
next
  case False
  then show ?thesis by (simp add: scan_targets_step del: scan_targets.simps)
qed

text \<open>
  C1 (amended). Let a sealed target occur once in the target list. If the scan reaches
  it (no exception leaves the scan at an earlier target) and it then resolves, after the
  earlier targets of the list have been scanned and possibly restored, to a value that
  gets a fingerprint whose hash differs from the hash of the baseline, then one call of
  \<^verbatim>\<open>_scan_once\<close> appends exactly one \<^verbatim>\<open>replaced\<close> alert for that target, whether or
  not an exception leaves the scan later; its \<^verbatim>\<open>before\<close> is the sealed fingerprint
  and its \<^verbatim>\<open>after\<close> is the fingerprint of the value now bound.
\<close>

theorem scan_once_replaced:
  assumes "targets g = pre @ d # post"
    and "d \<notin> set pre" and "d \<notin> set post"
    and "baseline g d = Some base"
    and "fst (scan_targets H pre (g, w)) = Inr ()"
    and "resolve_dotted (snd (snd (scan_targets H pre (g, w)))) d = Inr (c, v, cq, a)"
    and "fingerprint_callable H (heap (snd (snd (scan_targets H pre (g, w)))) v) = Inr fp_now"
    and "fp_hash fp_now \<noteq> fp_hash (fp base)"
  shows "\<exists>new. alerts (fst (snd (scan_once H (g, w)))) = alerts g @ new
           \<and> filter (\<lambda>x. is_replaced x \<and> alert_target x = Some d) new
               = [Replaced d (fp base) fp_now]"
proof -
  let ?P = "\<lambda>x. is_replaced x \<and> alert_target x = Some d"
  let ?s1 = "snd (scan_targets H pre (g, w))"
  let ?s2 = "scan_target H d ?s1"
  let ?s3 = "scan_targets H (d # post) ?s1"
  let ?R = "Replaced d (fp base) fp_now"
  have t: "scan_targets H (targets g) (g, w) = ?s3"
    unfolding assms(1) scan_targets_append [of H pre] using assms(5) by simp
  obtain n1 where n1: "alerts (fst ?s1) = alerts g @ n1"
      "\<forall>x\<in>set n1. \<exists>d'\<in>set pre. alert_target x = Some d'"
    using scan_targets_new [of H pre "(g, w)"] by auto
  have b: "baseline (fst ?s1) d = Some base"
    using assms(4) by (simp add: scan_targets_baseline)
  obtain rest where n2: "alerts (fst (snd ?s2)) = alerts (fst ?s1) @ ?R # rest"
      "\<forall>x\<in>set rest. is_restore x"
    using scan_target_replaced [of "fst ?s1" d base "snd ?s1" c v cq a H fp_now] b assms(6,7,8)
    by auto
  obtain n3 where n3: "alerts (fst (snd ?s3)) = alerts (fst (snd ?s2)) @ n3"
      "\<forall>x\<in>set n3. \<exists>d'\<in>set post. alert_target x = Some d'"
    using scan_targets_from [of H d post ?s1] by blast
  obtain n4 where n4: "alerts (fst (snd (scan_once H (g, w)))) = alerts (fst (snd ?s3)) @ n4"
      "\<forall>x\<in>set n4. alert_target x = None"
    using scan_once_other_alerts [of H "(g, w)"] t by auto
  have f1: "filter ?P n1 = []" using n1(2) assms(2) by (auto simp: filter_empty_conv)
  have f2: "filter ?P rest = []"
  proof -
    have "\<not> ?P x" if "x \<in> set rest" for x
      using n2(2) that by (cases x) auto
    then show ?thesis by (auto simp: filter_empty_conv)
  qed
  have f3: "filter ?P n3 = []" using n3(2) assms(3) by (auto simp: filter_empty_conv)
  have f4: "filter ?P n4 = []" using n4(2) by (auto simp: filter_empty_conv)
  have "alerts (fst (snd (scan_once H (g, w)))) = alerts g @ (n1 @ ?R # rest @ n3 @ n4)"
    using n1(1) n2(1) n3(1) n4(1) by simp
  moreover have "filter ?P (n1 @ ?R # rest @ n3 @ n4) = [?R]"
    using f1 f2 f3 f4 by simp
  ultimately show ?thesis by blast
qed

theorem scan_once_replaced_witness:
  "targets (guard_ex True (Finite 0) [''m.f'']) = [] @ ''m.f'' # []
   \<and> map_option fp (baseline (guard_ex True (Finite 0) [''m.f'']) ''m.f'')
       = Some \<lparr>fp_type = ''function'', fp_hash = ''original||(None,)||()||()||m.py||1'',
                fp_where = ''m.f''\<rparr>
   \<and> resolve_dotted (patch_f world_ex) ''m.f'' = Inr (0, 2, ''<module m>'', ''f'')
   \<and> fingerprint_callable id (heap (patch_f world_ex) 2)
       = Inr \<lparr>fp_type = ''function'', fp_hash = ''patched||(None,)||()||()||m.py||1'',
               fp_where = ''m.g''\<rparr>
   \<and> (\<exists>new. alerts (fst (snd (scan_once id (guard_ex True (Finite 0) [''m.f''], patch_f world_ex))))
               = alerts (guard_ex True (Finite 0) [''m.f'']) @ new
          \<and> filter (\<lambda>x. is_replaced x \<and> alert_target x = Some ''m.f'') new
              = [Replaced ''m.f''
                   \<lparr>fp_type = ''function'', fp_hash = ''original||(None,)||()||()||m.py||1'',
                      fp_where = ''m.f''\<rparr>
                   \<lparr>fp_type = ''function'', fp_hash = ''patched||(None,)||()||()||m.py||1'',
                      fp_where = ''m.g''\<rparr>])"
proof -
  let ?g = "guard_ex True (Finite 0) [''m.f'']"
  let ?w = "patch_f world_ex"
  let ?base = "\<lparr>fp = \<lparr>fp_type = ''function'', fp_hash = ''original||(None,)||()||()||m.py||1'',
                      fp_where = ''m.f''\<rparr>, container = ''<module m>'', attr = ''f''\<rparr>"
  let ?now = "\<lparr>fp_type = ''function'', fp_hash = ''patched||(None,)||()||()||m.py||1'',
                  fp_where = ''m.g''\<rparr>"
  have t: "targets ?g = [] @ ''m.f'' # []" by code_simp
  have b: "baseline ?g ''m.f'' = Some ?base" by code_simp
  have r: "resolve_dotted ?w ''m.f'' = Inr (0, 2, ''<module m>'', ''f'')" by code_simp
  have f: "fingerprint_callable id (heap ?w 2) = Inr ?now" by code_simp
  have p: "fst (scan_targets id [] (?g, ?w)) = Inr ()" by simp
  have h: "fp_hash ?now \<noteq> fp_hash (fp ?base)" by simp
  have r': "resolve_dotted (snd (snd (scan_targets id [] (?g, ?w)))) ''m.f''
              = Inr (0, 2, ''<module m>'', ''f'')"
    using r by simp
  have f': "fingerprint_callable id (heap (snd (snd (scan_targets id [] (?g, ?w)))) 2) = Inr ?now"
    using f by simp
  show ?thesis
    using scan_once_replaced [OF t _ _ b p r' f' h] t b r f by simp
qed

text \<open>
  The claim as stated fails when the target is listed twice and auto-restore is off: the
  scan appends two \<^verbatim>\<open>replaced\<close> alerts for it.
\<close>

theorem scan_once_replaced_counterexample:
  "targets (guard_ex False (Finite 0) [''m.f'', ''m.f'']) = [''m.f'', ''m.f'']
   \<and> alerts (guard_ex False (Finite 0) [''m.f'', ''m.f'']) = []
   \<and> map_option (\<lambda>b. fp_hash (fp b)) (baseline (guard_ex False (Finite 0) [''m.f'', ''m.f'']) ''m.f'')
       = Some ''original||(None,)||()||()||m.py||1''
   \<and> resolve_dotted (patch_f world_ex) ''m.f'' = Inr (0, 2, ''<module m>'', ''f'')
   \<and> map_sum id fp_hash (fingerprint_callable id (heap (patch_f world_ex) 2))
       = Inr ''patched||(None,)||()||()||m.py||1''
   \<and> fst (scan_once id (guard_ex False (Finite 0) [''m.f'', ''m.f''], patch_f world_ex)) = Inr ()
   \<and> filter (\<lambda>x. is_replaced x \<and> alert_target x = Some ''m.f'')
         (alerts (fst (snd (scan_once id
            (guard_ex False (Finite 0) [''m.f'', ''m.f''], patch_f world_ex)))))
       = [Replaced ''m.f''
            \<lparr>fp_type = ''function'', fp_hash = ''original||(None,)||()||()||m.py||1'',
               fp_where = ''m.f''\<rparr>
            \<lparr>fp_type = ''function'', fp_hash = ''patched||(None,)||()||()||m.py||1'',
               fp_where = ''m.g''\<rparr>,
          Replaced ''m.f''
            \<lparr>fp_type = ''function'', fp_hash = ''original||(None,)||()||()||m.py||1'',
               fp_where = ''m.f''\<rparr>
            \<lparr>fp_type = ''function'', fp_hash = ''patched||(None,)||()||()||m.py||1'',
               fp_where = ''m.g''\<rparr>]"
  by code_simp

subsection \<open>Restoring a replaced binding\<close>















end
